theory Spec2Isabelle
  imports Main "HOL-Library.AList"
begin

text \<open>
  A shallow embedding of the client library \<^verbatim>\<open>capybaradb\<close>: the class \<^verbatim>\<open>EmbImage\<close> with
  its constructor and its two conversions, the document transformer
  \<^verbatim>\<open>Collection.transform_emb_text\<close> and the response handler
  \<^verbatim>\<open>Collection.handle_response\<close>. Exceptions are values of a sum type. What lies
  outside the two modules is a parameter: the identifiers of the model classes, the
  base64 decoder of the standard library and the method \<^verbatim>\<open>EmbText.to_json\<close>.
\<close>

section \<open>Values\<close>

text \<open>
  The values that travel over the wire and that the untyped attributes of an
  \<^verbatim>\<open>EmbImage\<close> hold: what \<^verbatim>\<open>json.loads\<close> produces. Python's \<^verbatim>\<open>None\<close> is
  \<open>JNull\<close>. A \<^verbatim>\<open>dict\<close> is an association list in insertion order; a Python dict
  has pairwise distinct keys. Strings are lists of 8-bit characters (code points
  below 256); floating-point numbers are left out.
\<close>

datatype json =
    JNull
  | JBool bool
  | JInt int
  | JStr string
  | JList "json list"
  | JDict "(string \<times> json) list"

text \<open>Python's truth value of an object, as \<^verbatim>\<open>if self._chunks:\<close> tests it.\<close>

fun truthy :: "json \<Rightarrow> bool" where
  "truthy JNull = False"
| "truthy (JBool b) = b"
| "truthy (JInt i) = (i \<noteq> 0)"
| "truthy (JStr s) = (s \<noteq> [])"
| "truthy (JList xs) = (xs \<noteq> [])"
| "truthy (JDict kvs) = (kvs \<noteq> [])"

text \<open>\<^verbatim>\<open>d.get(key)\<close> and \<^verbatim>\<open>d.get(key, default)\<close>.\<close>

definition get :: "(string \<times> json) list \<Rightarrow> string \<Rightarrow> json" where
  "get d key = (case map_of d key of None \<Rightarrow> JNull | Some v \<Rightarrow> v)"

definition get_default :: "(string \<times> json) list \<Rightarrow> string \<Rightarrow> json \<Rightarrow> json" where
  "get_default d key dflt = (case map_of d key of None \<Rightarrow> dflt | Some v \<Rightarrow> v)"

text \<open>\<^verbatim>\<open>sep.join(xs)\<close>.\<close>

fun join :: "string \<Rightarrow> string list \<Rightarrow> string" where
  "join sep [] = []"
| "join sep [x] = x"
| "join sep (x # y # ys) = x @ sep @ join sep (y # ys)"

text \<open>
  \<^verbatim>\<open>str.strip()\<close>: removes leading and trailing whitespace. Among the code points
  below 256 Python counts as whitespace 9 to 13, 28 to 32, 133 and 160.
\<close>

definition isspace :: "char \<Rightarrow> bool" where
  "isspace c = (of_char c \<in> {9, 10, 11, 12, 13, 28, 29, 30, 31, 32, 133, 160 :: nat})"

definition strip :: "string \<Rightarrow> string" where
  "strip s = rev (dropWhile isspace (rev (dropWhile isspace s)))"

section \<open>EmbImage\<close>

text \<open>
  The classes \<^verbatim>\<open>EmbModels\<close> and \<^verbatim>\<open>VisionModels\<close> hold the model identifiers as
  class attributes. Their values are taken as parameters: every function below
  that reads one of them takes the class as an argument.
\<close>

record EmbModels =
  TEXT_EMBEDDING_3_SMALL :: string
  TEXT_EMBEDDING_3_LARGE :: string
  TEXT_EMBEDDING_ADA_002 :: string

record VisionModels =
  GPT_4O_MINI :: string
  GPT_4O :: string
  GPT_4O_TURBO :: string
  GPT_O1 :: string

definition SUPPORTED_EMB_MODELS :: "EmbModels \<Rightarrow> string list" where
  "SUPPORTED_EMB_MODELS E =
     [TEXT_EMBEDDING_3_SMALL E, TEXT_EMBEDDING_3_LARGE E, TEXT_EMBEDDING_ADA_002 E]"

definition SUPPORTED_VISION_MODELS :: "VisionModels \<Rightarrow> string list" where
  "SUPPORTED_VISION_MODELS V = [GPT_4O_MINI V, GPT_4O V, GPT_4O_TURBO V, GPT_O1 V]"

definition SUPPORTED_MIME_TYPES :: "string list" where
  "SUPPORTED_MIME_TYPES =
     [''image/jpeg'', ''image/jpg'', ''image/png'', ''image/gif'', ''image/webp'']"

text \<open>
  An instance: its attributes, each holding whatever value it was given
  (\<open>chunks\<close> is the private attribute \<^verbatim>\<open>_chunks\<close>).
\<close>

record emb_image =
  data :: json
  mime_type :: json
  chunks :: json
  emb_model :: json
  vision_model :: json
  max_chunk_size :: json
  chunk_overlap :: json
  is_separator_regex :: json
  separators :: json
  keep_separator :: json

text \<open>
  The \<^verbatim>\<open>ValueError\<close>s of the class, one constructor for each \<^verbatim>\<open>raise\<close>, carrying
  the values its message is formatted from:
  \<^item> \<open>Invalid_data\<close>: "Invalid data: must be a non-empty string containing valid
    base64-encoded image data."
  \<^item> \<open>Unsupported_mime_type m l\<close>: "Unsupported mime type: 'm'. Supported types
    are: l"
  \<^item> \<open>Invalid_emb_model m l\<close>: "Invalid embedding model: 'm' is not supported.
    Supported models are: l"
  \<^item> \<open>Invalid_vision_model m l\<close>: "Invalid vision model: 'm' is not supported.
    Supported models are: l"
  \<^item> \<open>Missing_data\<close>: "JSON data must include 'data' field under '@embImage'. This
    field should contain base64-encoded image data."
  \<^item> \<open>Missing_mime_type l\<close>: "JSON data must include 'mime_type' field under
    '@embImage'. Supported types are: l"
\<close>

datatype message =
    Invalid_data
  | Unsupported_mime_type json string
  | Invalid_emb_model json string
  | Invalid_vision_model json string
  | Missing_data
  | Missing_mime_type string

datatype error = ValueError message

text \<open>
  \<^verbatim>\<open>is_valid_data\<close>. The call \<^verbatim>\<open>base64.b64decode(data, validate=True)\<close> belongs to
  the standard library; \<open>b64decode\<close> says whether it returns (\<open>True\<close>) or raises.
\<close>

definition is_valid_data :: "(string \<Rightarrow> bool) \<Rightarrow> json \<Rightarrow> bool" where
  "is_valid_data b64decode data' =
     (case data' of
        JStr s \<Rightarrow> if strip s = [] then False else b64decode s
      | _ \<Rightarrow> False)"

text \<open>\<^verbatim>\<open>x in xs\<close> for a list of strings: some element equals \<open>x\<close>.\<close>

definition is_in :: "json \<Rightarrow> string list \<Rightarrow> bool" where
  "is_in x xs = (x \<in> set (map JStr xs))"

definition is_valid_mime_type :: "json \<Rightarrow> bool" where
  "is_valid_mime_type mime_type' = is_in mime_type' SUPPORTED_MIME_TYPES"

definition is_valid_emb_model :: "EmbModels \<Rightarrow> json \<Rightarrow> bool" where
  "is_valid_emb_model E emb_model' =
     (emb_model' = JNull \<or> is_in emb_model' (SUPPORTED_EMB_MODELS E))"

definition is_valid_vision_model :: "VisionModels \<Rightarrow> json \<Rightarrow> bool" where
  "is_valid_vision_model V vision_model' =
     (vision_model' = JNull \<or> is_in vision_model' (SUPPORTED_VISION_MODELS V))"

text \<open>An optional argument: \<open>None\<close> when the caller leaves it out.\<close>

definition arg :: "json option \<Rightarrow> json \<Rightarrow> json" where
  "arg given dflt = (case given of None \<Rightarrow> dflt | Some v \<Rightarrow> v)"

text \<open>
  \<^verbatim>\<open>EmbImage.__init__\<close>. \<open>data'\<close> and \<open>mime_type'\<close> are required; the other seven
  arguments are optional, with the defaults of the signature.
\<close>

definition EmbImage_init ::
  "EmbModels \<Rightarrow> VisionModels \<Rightarrow> (string \<Rightarrow> bool) \<Rightarrow> json \<Rightarrow> json \<Rightarrow>
   json option \<Rightarrow> json option \<Rightarrow> json option \<Rightarrow> json option \<Rightarrow>
   json option \<Rightarrow> json option \<Rightarrow> json option \<Rightarrow> error + emb_image" where
  "EmbImage_init E V b64decode data' mime_type' emb_model_arg vision_model_arg
     max_chunk_size_arg chunk_overlap_arg is_separator_regex_arg separators_arg
     keep_separator_arg =
     (let emb_model' = arg emb_model_arg (JStr (TEXT_EMBEDDING_3_SMALL E));
          vision_model' = arg vision_model_arg (JStr (GPT_4O_MINI V));
          max_chunk_size' = arg max_chunk_size_arg JNull;
          chunk_overlap' = arg chunk_overlap_arg JNull;
          is_separator_regex' = arg is_separator_regex_arg JNull;
          separators' = arg separators_arg JNull;
          keep_separator' = arg keep_separator_arg JNull
      in
      if \<not> is_valid_data b64decode data' then
        Inl (ValueError Invalid_data)
      else if \<not> is_valid_mime_type mime_type' then
        Inl (ValueError (Unsupported_mime_type mime_type'
               (join '', '' SUPPORTED_MIME_TYPES)))
      else if emb_model' \<noteq> JNull \<and> \<not> is_valid_emb_model E emb_model' then
        Inl (ValueError (Invalid_emb_model emb_model'
               (join '', '' (SUPPORTED_EMB_MODELS E))))
      else if vision_model' \<noteq> JNull \<and> \<not> is_valid_vision_model V vision_model' then
        Inl (ValueError (Invalid_vision_model vision_model'
               (join '', '' (SUPPORTED_VISION_MODELS V))))
      else
        Inr \<lparr> data = data',
              mime_type = mime_type',
              chunks = JList [],
              emb_model = emb_model',
              vision_model = vision_model',
              max_chunk_size = max_chunk_size',
              chunk_overlap = chunk_overlap',
              is_separator_regex = is_separator_regex',
              separators = separators',
              keep_separator = keep_separator' \<rparr>)"

text \<open>
  \<^verbatim>\<open>to_json\<close>. \<open>to_json_result\<close> is the local dictionary \<^verbatim>\<open>result\<close>; \<open>put\<close> is one
  guarded assignment \<^verbatim>\<open>if c: result[key] = v\<close> to a key not yet in \<^verbatim>\<open>result\<close>.
\<close>

definition put :: "bool \<Rightarrow> string \<Rightarrow> json \<Rightarrow> (string \<times> json) list \<Rightarrow> (string \<times> json) list" where
  "put c key v result = (if c then result @ [(key, v)] else result)"

definition to_json_result :: "emb_image \<Rightarrow> (string \<times> json) list" where
  "to_json_result self =
     (let result = [(''data'', data self), (''mime_type'', mime_type self)];
          result = put (truthy (chunks self)) ''chunks'' (chunks self) result;
          result = put (emb_model self \<noteq> JNull) ''emb_model'' (emb_model self) result;
          result = put (vision_model self \<noteq> JNull) ''vision_model'' (vision_model self) result;
          result = put (max_chunk_size self \<noteq> JNull) ''max_chunk_size'' (max_chunk_size self) result;
          result = put (chunk_overlap self \<noteq> JNull) ''chunk_overlap'' (chunk_overlap self) result;
          result = put (is_separator_regex self \<noteq> JNull) ''is_separator_regex''
                     (is_separator_regex self) result;
          result = put (separators self \<noteq> JNull) ''separators'' (separators self) result;
          result = put (keep_separator self \<noteq> JNull) ''keep_separator'' (keep_separator self) result
      in result)"

definition to_json :: "emb_image \<Rightarrow> (string \<times> json) list" where
  "to_json self = [(''@embImage'', JDict (to_json_result self))]"

text \<open>
  \<^verbatim>\<open>from_json\<close>: the constructor is called with all nine arguments, then
  \<^verbatim>\<open>_chunks\<close> is assigned.
\<close>

definition from_json ::
  "EmbModels \<Rightarrow> VisionModels \<Rightarrow> (string \<Rightarrow> bool) \<Rightarrow> (string \<times> json) list \<Rightarrow> error + emb_image" where
  "from_json E V b64decode json_dict =
     (let image_data = get json_dict ''data'' in
      if image_data = JNull then Inl (ValueError Missing_data)
      else
        let mime_type' = get json_dict ''mime_type'' in
        if mime_type' = JNull then
          Inl (ValueError (Missing_mime_type (join '', '' SUPPORTED_MIME_TYPES)))
        else
          (case EmbImage_init E V b64decode image_data mime_type'
                  (Some (get json_dict ''emb_model''))
                  (Some (get json_dict ''vision_model''))
                  (Some (get json_dict ''max_chunk_size''))
                  (Some (get json_dict ''chunk_overlap''))
                  (Some (get json_dict ''is_separator_regex''))
                  (Some (get json_dict ''separators''))
                  (Some (get json_dict ''keep_separator'')) of
             Inl e \<Rightarrow> Inl e
           | Inr instance \<Rightarrow>
               Inr (instance\<lparr>chunks := get_default json_dict ''chunks'' (JList [])\<rparr>)))"

section \<open>Documents\<close>

text \<open>
  The values a document is built from. The class \<^verbatim>\<open>EmbText\<close> is imported by the
  collection module; its instances are values of a type parameter \<open>'e\<close>, and its
  method \<^verbatim>\<open>to_json\<close> is the argument \<open>EmbText_to_json\<close> of the transformer.
  A document is a tree: no object is shared between two places of it.
\<close>

datatype 'e pyval =
    PyNone
  | PyBool bool
  | PyInt int
  | PyStr string
  | PyList "'e pyval list"
  | PyDict "(string \<times> 'e pyval) list"
  | PyEmbText 'e
  | PyEmbImage emb_image

text \<open>
  \<^verbatim>\<open>Collection.transform_emb_text\<close>. The loop runs over the items of the
  dictionary and assigns \<^verbatim>\<open>document[key]\<close> in place (\<open>AList.update\<close> on the
  dictionary as assigned so far, which the \<open>fold\<close> carries and returns); a value that
  is neither an \<^verbatim>\<open>EmbText\<close>, a \<^verbatim>\<open>dict\<close> nor a \<^verbatim>\<open>list\<close> is not assigned.
\<close>

function transform_emb_text ::
  "('e \<Rightarrow> 'e pyval) \<Rightarrow> (string \<times> 'e pyval) list \<Rightarrow> (string \<times> 'e pyval) list" where
  "transform_emb_text EmbText_to_json document =
     fold (\<lambda>(key, value) document.
        case value of
          PyEmbText e \<Rightarrow> AList.update key (EmbText_to_json e) document
        | PyDict d \<Rightarrow>
            AList.update key (PyDict (transform_emb_text EmbText_to_json d)) document
        | PyList xs \<Rightarrow>
            AList.update key
              (PyList (map (\<lambda>item. case item of
                                      PyDict d \<Rightarrow> PyDict (transform_emb_text EmbText_to_json d)
                                    | _ \<Rightarrow> item) xs))
              document
        | _ \<Rightarrow> document)
       document document"
  by pat_completeness auto
termination
proof -
  let ?m = "size_list (size_prod (\<lambda>_. 0) size) :: (string \<times> 'e pyval) list \<Rightarrow> nat"
  have entry: "size v < ?m d" if "(k, v) \<in> set d" for k v d
    by (rule size_list_estimation [OF that]) simp
  have element: "size x \<le> size_list size xs" if "x \<in> set xs" for x :: "'e pyval" and xs
    by (rule size_list_estimation' [OF that]) simp
  have in_dict: "?m d < ?m document" if "(k, PyDict d) \<in> set document" for k d document
    using entry [OF that] by simp
  have in_list: "?m d < ?m document"
    if "(k, PyList xs) \<in> set document" and "PyDict d \<in> set xs" for k xs d document
    using entry [OF that(1)] element [OF that(2)] by simp
  show ?thesis
  proof (relation "measure (\<lambda>(t, d). ?m d)", goal_cases)
    case 1
    show ?case by simp
  next
    case 2
    then show ?case by (auto elim: in_dict in_list)
  next
    case 3
    then show ?case by (auto elim: in_dict in_list)
  qed
qed

text \<open>The equation is recursive without a guard: it is unfolded on request only.\<close>

declare transform_emb_text.simps [simp del]

section \<open>Responses\<close>

text \<open>
  A response of the \<^verbatim>\<open>requests\<close> library, as far as \<^verbatim>\<open>handle_response\<close> looks at
  it: the attributes \<^verbatim>\<open>status_code\<close> and \<^verbatim>\<open>text\<close> (here \<open>text'\<close>), and what the method
  \<^verbatim>\<open>json()\<close> returns (\<open>None\<close> when it raises its \<^verbatim>\<open>ValueError\<close>, the body being no
  JSON document).
\<close>

record response =
  status_code :: int
  text' :: string
  json :: "json option"

text \<open>
  \<^verbatim>\<open>response.raise_for_status()\<close> raises \<^verbatim>\<open>HTTPError\<close> for the client and server
  error statuses, 400 to 599, and returns for every other status.
\<close>

definition raise_for_status :: "response \<Rightarrow> bool" where
  "raise_for_status r = (400 \<le> status_code r \<and> status_code r < 600)"

text \<open>
  What \<^verbatim>\<open>handle_response\<close> raises: the four classes of the module with their
  \<^verbatim>\<open>status_code\<close> and \<^verbatim>\<open>message\<close>, and the exceptions it lets through:
  the decode error of \<^verbatim>\<open>response.json()\<close>, the \<^verbatim>\<open>AttributeError\<close> of \<^verbatim>\<open>.get\<close> on a
  value that is no dictionary, the \<^verbatim>\<open>TypeError\<close> of an order comparison between
  a non-number and a number.
\<close>

datatype exn =
    APIClientError json json
  | AuthenticationError json json
  | ClientRequestError json json
  | ServerError json json
  | JSONDecodeError
  | AttributeError
  | TypeError

text \<open>
  Python's comparisons of a decoded value with an integer literal. \<^verbatim>\<open>bool\<close> is a
  subclass of \<^verbatim>\<open>int\<close>; \<^verbatim>\<open>==\<close> is false between a non-number and a number, while
  \<^verbatim>\<open>>=\<close> and \<^verbatim>\<open><\<close> raise \<^verbatim>\<open>TypeError\<close> there (\<open>None\<close>).
\<close>

fun as_int :: "json \<Rightarrow> int option" where
  "as_int (JInt i) = Some i"
| "as_int (JBool b) = Some (if b then 1 else 0)"
| "as_int v = None"

definition py_eq :: "json \<Rightarrow> int \<Rightarrow> bool" where
  "py_eq v n = (as_int v = Some n)"

definition py_ge :: "json \<Rightarrow> int \<Rightarrow> bool option" where
  "py_ge v n = map_option (\<lambda>i. i \<ge> n) (as_int v)"

definition py_lt :: "json \<Rightarrow> int \<Rightarrow> bool option" where
  "py_lt v n = map_option (\<lambda>i. i < n) (as_int v)"

text \<open>\<^verbatim>\<open>Collection.handle_response\<close>: \<open>Inr\<close> the value returned, \<open>Inl\<close> the exception.\<close>

definition handle_response :: "response \<Rightarrow> exn + json" where
  "handle_response r =
     (if \<not> raise_for_status r then
        (case json r of None \<Rightarrow> Inl JSONDecodeError | Some payload \<Rightarrow> Inr payload)
      else
        (case json r of
           None \<Rightarrow> Inl (APIClientError (JInt (status_code r)) (JStr (text' r)))
         | Some (JDict error_data) \<Rightarrow>
             (let status = get_default error_data ''status'' (JStr ''error'');
                  code = get_default error_data ''code'' (JInt 500);
                  message = get_default error_data ''message''
                              (JStr ''An unknown error occurred.'')
              in
              if py_eq code 401 then Inl (AuthenticationError code message)
              else
                (case py_ge code 400 of
                   None \<Rightarrow> Inl TypeError
                 | Some False \<Rightarrow> Inl (ServerError code message)
                 | Some True \<Rightarrow>
                     (case py_lt code 500 of
                        None \<Rightarrow> Inl TypeError
                      | Some True \<Rightarrow> Inl (ClientRequestError code message)
                      | Some False \<Rightarrow> Inl (ServerError code message))))
         | Some _ \<Rightarrow> Inl AttributeError))"

section \<open>Auxiliary definitions\<close>

text \<open>
  What the constructor establishes: the four checked attributes pass their checks.
\<close>

definition valid_instance ::
  "EmbModels \<Rightarrow> VisionModels \<Rightarrow> (string \<Rightarrow> bool) \<Rightarrow> emb_image \<Rightarrow> bool" where
  "valid_instance E V b64decode self =
     (is_valid_data b64decode (data self) \<and> is_valid_mime_type (mime_type self) \<and>
      is_valid_emb_model E (emb_model self) \<and> is_valid_vision_model V (vision_model self))"

text \<open>
  One pass of the loop body of \<open>transform_emb_text\<close>: whether it assigns
  \<^verbatim>\<open>document[key]\<close>, and the value it assigns.
\<close>

definition assigned :: "'e pyval \<Rightarrow> bool" where
  "assigned v =
     (case v of PyEmbText e \<Rightarrow> True | PyDict d \<Rightarrow> True | PyList xs \<Rightarrow> True | _ \<Rightarrow> False)"

definition new_value :: "('e \<Rightarrow> 'e pyval) \<Rightarrow> 'e pyval \<Rightarrow> 'e pyval" where
  "new_value EmbText_to_json v =
     (case v of
        PyEmbText e \<Rightarrow> EmbText_to_json e
      | PyDict d \<Rightarrow> PyDict (transform_emb_text EmbText_to_json d)
      | PyList xs \<Rightarrow>
          PyList (map (\<lambda>item. case item of
                                 PyDict d \<Rightarrow> PyDict (transform_emb_text EmbText_to_json d)
                               | _ \<Rightarrow> item) xs)
      | _ \<Rightarrow> v)"

text \<open>
  A Python dictionary has distinct keys: \<open>keys_distinct\<close> says so of every
  dictionary of a value. \<open>no_EmbImage\<close> and \<open>no_EmbText\<close>: the value holds no
  instance of the class, at any depth.
\<close>

fun keys_distinct :: "'e pyval \<Rightarrow> bool" where
  "keys_distinct (PyDict d) = (distinct (map fst d) \<and> list_all keys_distinct (map snd d))"
| "keys_distinct (PyList xs) = list_all keys_distinct xs"
| "keys_distinct v = True"

fun no_EmbImage :: "'e pyval \<Rightarrow> bool" where
  "no_EmbImage (PyEmbImage x) = False"
| "no_EmbImage (PyDict d) = list_all no_EmbImage (map snd d)"
| "no_EmbImage (PyList xs) = list_all no_EmbImage xs"
| "no_EmbImage v = True"

fun no_EmbText :: "'e pyval \<Rightarrow> bool" where
  "no_EmbText (PyEmbText x) = False"
| "no_EmbText (PyDict d) = list_all no_EmbText (map snd d)"
| "no_EmbText (PyList xs) = list_all no_EmbText xs"
| "no_EmbText v = True"

text \<open>
  The walking contract of the specification, by recursion on the value.
  \<open>spec_value\<close> is applied to the value of a mapping entry: an \<^verbatim>\<open>EmbText\<close> is
  replaced by its wire form, a mapping is walked, and of a sequence the elements
  that are mappings are walked (\<open>spec_element\<close>); everything else stays.
\<close>

fun spec_value :: "('e \<Rightarrow> 'e pyval) \<Rightarrow> 'e pyval \<Rightarrow> 'e pyval"
  and spec_element :: "('e \<Rightarrow> 'e pyval) \<Rightarrow> 'e pyval \<Rightarrow> 'e pyval" where
  "spec_value tj (PyEmbText e) = tj e"
| "spec_value tj (PyDict d) = PyDict (map (\<lambda>(k, v). (k, spec_value tj v)) d)"
| "spec_value tj (PyList xs) = PyList (map (spec_element tj) xs)"
| "spec_value tj v = v"
| "spec_element tj (PyDict d) = PyDict (map (\<lambda>(k, v). (k, spec_value tj v)) d)"
| "spec_element tj v = v"

text \<open>
  Sample parameters, for running the definitions on concrete inputs: identifiers
  for the two model classes, a decoder that accepts the unpadded base64 strings
  (characters of the alphabet, length a multiple of four), and an \<^verbatim>\<open>EmbText\<close>
  that is its text, serialised under the tag \<^verbatim>\<open>@embText\<close>.
\<close>

definition sample_EmbModels :: EmbModels where
  "sample_EmbModels =
     \<lparr>TEXT_EMBEDDING_3_SMALL = ''text-embedding-3-small'',
      TEXT_EMBEDDING_3_LARGE = ''text-embedding-3-large'',
      TEXT_EMBEDDING_ADA_002 = ''text-embedding-ada-002''\<rparr>"

definition sample_VisionModels :: VisionModels where
  "sample_VisionModels =
     \<lparr>GPT_4O_MINI = ''gpt-4o-mini'', GPT_4O = ''gpt-4o'',
      GPT_4O_TURBO = ''gpt-4o-turbo'', GPT_O1 = ''o1''\<rparr>"

definition base64_alphabet :: string where
  "base64_alphabet = ''ABCDEFGHIJKLMNOPQRSTUVWXYZabcdefghijklmnopqrstuvwxyz0123456789+/''"

definition sample_b64decode :: "string \<Rightarrow> bool" where
  "sample_b64decode s =
     (length s mod 4 = 0 \<and> list_all (\<lambda>c. List.member base64_alphabet c) s)"

definition sample_EmbText_to_json :: "string \<Rightarrow> string pyval" where
  "sample_EmbText_to_json s = PyDict [(''@embText'', PyDict [(''data'', PyStr s)])]"

text \<open>The instance that the constructor returns on the sample data with the defaults.\<close>

definition sample_EmbImage :: emb_image where
  "sample_EmbImage =
     \<lparr>data = JStr ''QUJD'', mime_type = JStr ''image/png'', chunks = JList [],
      emb_model = JStr ''text-embedding-3-small'', vision_model = JStr ''gpt-4o-mini'',
      max_chunk_size = JNull, chunk_overlap = JNull, is_separator_regex = JNull,
      separators = JNull, keep_separator = JNull\<rparr>"

section \<open>The constructor, serialisation and deserialisation of EmbImage\<close>

lemma map_of_put_other: "k' \<noteq> k \<Longrightarrow> map_of (put c k v r) k' = map_of r k'"
  by (auto simp add: put_def map_add_def split: option.splits)

lemma map_of_put_same:
  "map_of r k = None \<Longrightarrow> map_of (put c k v r) k = (if c then Some v else None)"
  by (simp add: put_def map_add_def)

lemma keys_put: "map fst (put c k v r) = map fst r @ (if c then [k] else [])"
  by (simp add: put_def)

lemmas result_simps = to_json_result_def Let_def map_of_put_other map_of_put_same

lemma result_data: "map_of (to_json_result x) ''data'' = Some (data x)"
  by (simp add: result_simps)

lemma result_mime_type: "map_of (to_json_result x) ''mime_type'' = Some (mime_type x)"
  by (simp add: result_simps)

lemma result_chunks:
  "map_of (to_json_result x) ''chunks'' = (if truthy (chunks x) then Some (chunks x) else None)"
  by (simp add: result_simps)

lemma result_emb_model:
  "map_of (to_json_result x) ''emb_model'' =
     (if emb_model x \<noteq> JNull then Some (emb_model x) else None)"
  by (simp add: result_simps)

lemma result_vision_model:
  "map_of (to_json_result x) ''vision_model'' =
     (if vision_model x \<noteq> JNull then Some (vision_model x) else None)"
  by (simp add: result_simps)

lemma result_max_chunk_size:
  "map_of (to_json_result x) ''max_chunk_size'' =
     (if max_chunk_size x \<noteq> JNull then Some (max_chunk_size x) else None)"
  by (simp add: result_simps)

lemma result_chunk_overlap:
  "map_of (to_json_result x) ''chunk_overlap'' =
     (if chunk_overlap x \<noteq> JNull then Some (chunk_overlap x) else None)"
  by (simp add: result_simps)

lemma result_is_separator_regex:
  "map_of (to_json_result x) ''is_separator_regex'' =
     (if is_separator_regex x \<noteq> JNull then Some (is_separator_regex x) else None)"
  by (simp add: result_simps)

lemma result_separators:
  "map_of (to_json_result x) ''separators'' =
     (if separators x \<noteq> JNull then Some (separators x) else None)"
  by (simp add: result_simps)

lemma result_keep_separator:
  "map_of (to_json_result x) ''keep_separator'' =
     (if keep_separator x \<noteq> JNull then Some (keep_separator x) else None)"
  by (simp add: result_simps)

lemmas result_lookups = result_data result_mime_type result_chunks result_emb_model
  result_vision_model result_max_chunk_size result_chunk_overlap result_is_separator_regex
  result_separators result_keep_separator

lemma result_keys:
  "map fst (to_json_result x) =
     [''data'', ''mime_type''] @
     (if truthy (chunks x) then [''chunks''] else []) @
     (if emb_model x \<noteq> JNull then [''emb_model''] else []) @
     (if vision_model x \<noteq> JNull then [''vision_model''] else []) @
     (if max_chunk_size x \<noteq> JNull then [''max_chunk_size''] else []) @
     (if chunk_overlap x \<noteq> JNull then [''chunk_overlap''] else []) @
     (if is_separator_regex x \<noteq> JNull then [''is_separator_regex''] else []) @
     (if separators x \<noteq> JNull then [''separators''] else []) @
     (if keep_separator x \<noteq> JNull then [''keep_separator''] else [])"
  by (simp only: to_json_result_def Let_def keys_put) simp

lemma is_valid_data_iff:
  "is_valid_data dec d = (\<exists>s. d = JStr s \<and> strip s \<noteq> [] \<and> dec s)"
  by (cases d) (simp_all add: is_valid_data_def)

lemma is_valid_data_not_null: "is_valid_data dec d \<Longrightarrow> d \<noteq> JNull"
  by (auto simp: is_valid_data_iff)

lemma is_valid_mime_type_not_null: "is_valid_mime_type m \<Longrightarrow> m \<noteq> JNull"
  by (auto simp: is_valid_mime_type_def is_in_def)

lemma init_success:
  assumes "is_valid_data dec d" "is_valid_mime_type m"
    "is_valid_emb_model E (arg em (JStr (TEXT_EMBEDDING_3_SMALL E)))"
    "is_valid_vision_model V (arg vm (JStr (GPT_4O_MINI V)))"
  shows "EmbImage_init E V dec d m em vm mcs co isr seps ks =
     Inr \<lparr>data = d, mime_type = m, chunks = JList [],
        emb_model = arg em (JStr (TEXT_EMBEDDING_3_SMALL E)),
        vision_model = arg vm (JStr (GPT_4O_MINI V)),
        max_chunk_size = arg mcs JNull, chunk_overlap = arg co JNull,
        is_separator_regex = arg isr JNull,
        separators = arg seps JNull, keep_separator = arg ks JNull\<rparr>"
  using assms by (simp add: EmbImage_init_def Let_def)

lemma init_Inr:
  assumes "EmbImage_init E V dec d m em vm mcs co isr seps ks = Inr x"
  shows "is_valid_data dec d" "is_valid_mime_type m"
    "is_valid_emb_model E (arg em (JStr (TEXT_EMBEDDING_3_SMALL E)))"
    "is_valid_vision_model V (arg vm (JStr (GPT_4O_MINI V)))"
    "x = \<lparr>data = d, mime_type = m, chunks = JList [],
        emb_model = arg em (JStr (TEXT_EMBEDDING_3_SMALL E)),
        vision_model = arg vm (JStr (GPT_4O_MINI V)),
        max_chunk_size = arg mcs JNull, chunk_overlap = arg co JNull,
        is_separator_regex = arg isr JNull,
        separators = arg seps JNull, keep_separator = arg ks JNull\<rparr>"
  using assms
  by (auto simp add: EmbImage_init_def Let_def is_valid_emb_model_def
        is_valid_vision_model_def split: if_splits)

lemma init_valid_instance:
  assumes "EmbImage_init E V dec d m em vm mcs co isr seps ks = Inr x"
  shows "valid_instance E V dec x" and "chunks x = JList []"
  using init_Inr [OF assms] by (simp_all add: valid_instance_def)

lemma from_json_Inr:
  assumes "from_json E V dec w = Inr y"
  shows "y = \<lparr>data = get w ''data'', mime_type = get w ''mime_type'',
        chunks = get_default w ''chunks'' (JList []),
        emb_model = get w ''emb_model'',
        vision_model = get w ''vision_model'',
        max_chunk_size = get w ''max_chunk_size'', chunk_overlap = get w ''chunk_overlap'',
        is_separator_regex = get w ''is_separator_regex'',
        separators = get w ''separators'', keep_separator = get w ''keep_separator''\<rparr>"
    and "valid_instance E V dec y"
proof -
  from assms obtain x where
    x: "EmbImage_init E V dec (get w ''data'') (get w ''mime_type'')
          (Some (get w ''emb_model'')) (Some (get w ''vision_model''))
          (Some (get w ''max_chunk_size'')) (Some (get w ''chunk_overlap''))
          (Some (get w ''is_separator_regex'')) (Some (get w ''separators''))
          (Some (get w ''keep_separator'')) = Inr x"
    and y: "y = x\<lparr>chunks := get_default w ''chunks'' (JList [])\<rparr>"
    by (auto simp: from_json_def Let_def split: if_splits sum.splits)
  from init_Inr(5) [OF x] y
  show "y = \<lparr>data = get w ''data'', mime_type = get w ''mime_type'',
        chunks = get_default w ''chunks'' (JList []),
        emb_model = get w ''emb_model'',
        vision_model = get w ''vision_model'',
        max_chunk_size = get w ''max_chunk_size'', chunk_overlap = get w ''chunk_overlap'',
        is_separator_regex = get w ''is_separator_regex'',
        separators = get w ''separators'', keep_separator = get w ''keep_separator''\<rparr>"
    by (simp add: arg_def)
  from init_valid_instance(1) [OF x] y show "valid_instance E V dec y"
    by (simp add: valid_instance_def)
qed

lemma from_json_success:
  assumes "is_valid_data dec (get w ''data'')" "is_valid_mime_type (get w ''mime_type'')"
    "is_valid_emb_model E (get w ''emb_model'')"
    "is_valid_vision_model V (get w ''vision_model'')"
  shows "from_json E V dec w =
     Inr \<lparr>data = get w ''data'', mime_type = get w ''mime_type'',
        chunks = get_default w ''chunks'' (JList []),
        emb_model = get w ''emb_model'',
        vision_model = get w ''vision_model'',
        max_chunk_size = get w ''max_chunk_size'', chunk_overlap = get w ''chunk_overlap'',
        is_separator_regex = get w ''is_separator_regex'',
        separators = get w ''separators'', keep_separator = get w ''keep_separator''\<rparr>"
proof -
  have "EmbImage_init E V dec (get w ''data'') (get w ''mime_type'')
          (Some (get w ''emb_model'')) (Some (get w ''vision_model''))
          (Some (get w ''max_chunk_size'')) (Some (get w ''chunk_overlap''))
          (Some (get w ''is_separator_regex'')) (Some (get w ''separators''))
          (Some (get w ''keep_separator'')) =
        Inr \<lparr>data = get w ''data'', mime_type = get w ''mime_type'', chunks = JList [],
        emb_model = get w ''emb_model'',
        vision_model = get w ''vision_model'',
        max_chunk_size = get w ''max_chunk_size'', chunk_overlap = get w ''chunk_overlap'',
        is_separator_regex = get w ''is_separator_regex'',
        separators = get w ''separators'', keep_separator = get w ''keep_separator''\<rparr>"
    using init_success [of dec "get w ''data''" "get w ''mime_type''" E
        "Some (get w ''emb_model'')" V "Some (get w ''vision_model'')"] assms
    by (simp add: arg_def)
  with is_valid_data_not_null [OF assms(1)] is_valid_mime_type_not_null [OF assms(2)]
  show ?thesis
    by (simp add: from_json_def Let_def)
qed

lemma get_result:
  "get (to_json_result x) ''data'' = data x"
  "get (to_json_result x) ''mime_type'' = mime_type x"
  "get (to_json_result x) ''emb_model'' = emb_model x"
  "get (to_json_result x) ''vision_model'' = vision_model x"
  "get (to_json_result x) ''max_chunk_size'' = max_chunk_size x"
  "get (to_json_result x) ''chunk_overlap'' = chunk_overlap x"
  "get (to_json_result x) ''is_separator_regex'' = is_separator_regex x"
  "get (to_json_result x) ''separators'' = separators x"
  "get (to_json_result x) ''keep_separator'' = keep_separator x"
  "get_default (to_json_result x) ''chunks'' (JList []) =
     (if truthy (chunks x) then chunks x else JList [])"
  by (simp_all add: get_def get_default_def result_lookups)

lemma from_json_to_json_result:
  assumes "valid_instance E V dec x"
  shows "from_json E V dec (to_json_result x) =
           Inr (x\<lparr>chunks := if truthy (chunks x) then chunks x else JList []\<rparr>)"
  using assms from_json_success [of dec "to_json_result x" E V]
  by (simp add: valid_instance_def get_result)

lemma init_invalid_data:
  "\<not> is_valid_data dec d \<Longrightarrow>
   EmbImage_init E V dec d m em vm mcs co isr seps ks = Inl (ValueError Invalid_data)"
  by (simp add: EmbImage_init_def Let_def)

lemma init_invalid_mime_type:
  "is_valid_data dec d \<Longrightarrow> \<not> is_valid_mime_type m \<Longrightarrow>
   EmbImage_init E V dec d m em vm mcs co isr seps ks =
     Inl (ValueError (Unsupported_mime_type m (join '', '' SUPPORTED_MIME_TYPES)))"
  by (simp add: EmbImage_init_def Let_def)

lemma init_invalid_emb_model:
  "is_valid_data dec d \<Longrightarrow> is_valid_mime_type m \<Longrightarrow>
   \<not> is_valid_emb_model E (arg em (JStr (TEXT_EMBEDDING_3_SMALL E))) \<Longrightarrow>
   EmbImage_init E V dec d m em vm mcs co isr seps ks =
     Inl (ValueError (Invalid_emb_model (arg em (JStr (TEXT_EMBEDDING_3_SMALL E)))
            (join '', '' (SUPPORTED_EMB_MODELS E))))"
  by (auto simp add: EmbImage_init_def Let_def is_valid_emb_model_def)

lemma init_invalid_vision_model:
  "is_valid_data dec d \<Longrightarrow> is_valid_mime_type m \<Longrightarrow>
   is_valid_emb_model E (arg em (JStr (TEXT_EMBEDDING_3_SMALL E))) \<Longrightarrow>
   \<not> is_valid_vision_model V (arg vm (JStr (GPT_4O_MINI V))) \<Longrightarrow>
   EmbImage_init E V dec d m em vm mcs co isr seps ks =
     Inl (ValueError (Invalid_vision_model (arg vm (JStr (GPT_4O_MINI V)))
            (join '', '' (SUPPORTED_VISION_MODELS V))))"
  by (auto simp add: EmbImage_init_def Let_def is_valid_vision_model_def)

lemma truthy_not_null: "truthy v \<Longrightarrow> v \<noteq> JNull"
  by (cases v) simp_all

lemma snd_put: "map snd (put c k v r) = map snd r @ (if c then [v] else [])"
  by (simp add: put_def)

lemma result_values:
  "set (map snd (to_json_result x)) =
     {data x, mime_type x} \<union> (if truthy (chunks x) then {chunks x} else {}) \<union>
     ({emb_model x, vision_model x, max_chunk_size x, chunk_overlap x,
       is_separator_regex x, separators x, keep_separator x} - {JNull})"
  by (simp only: to_json_result_def Let_def snd_put) auto

lemma result_no_null:
  assumes "valid_instance E V dec x"
  shows "JNull \<notin> set (map snd (to_json_result x))"
proof -
  from assms have "data x \<noteq> JNull" and "mime_type x \<noteq> JNull"
    by (auto simp: valid_instance_def
          dest: is_valid_data_not_null is_valid_mime_type_not_null)
  then show ?thesis
    unfolding result_values by (auto dest: truthy_not_null)
qed

lemma result_keys_distinct: "distinct (map fst (to_json_result x))"
  by (simp add: result_keys)

lemma key_present: "(k \<in> set (map fst r)) = (map_of r k \<noteq> None)"
  by (simp add: map_of_eq_None_iff)

subsection \<open>Particular arguments and the sample parameters\<close>

lemma sample_valid_data: "is_valid_data sample_b64decode (JStr ''QUJD'')"
  by (simp add: is_valid_data_def strip_def isspace_def sample_b64decode_def
        base64_alphabet_def)

lemma sample_valid_mime_type: "is_valid_mime_type (JStr ''image/png'')"
  by (simp add: is_valid_mime_type_def is_in_def SUPPORTED_MIME_TYPES_def)

lemma default_emb_model_valid: "is_valid_emb_model E (JStr (TEXT_EMBEDDING_3_SMALL E))"
  by (simp add: is_valid_emb_model_def is_in_def SUPPORTED_EMB_MODELS_def)

lemma default_vision_model_valid: "is_valid_vision_model V (JStr (GPT_4O_MINI V))"
  by (simp add: is_valid_vision_model_def is_in_def SUPPORTED_VISION_MODELS_def)

lemma sample_default_models:
  "TEXT_EMBEDDING_3_SMALL sample_EmbModels = ''text-embedding-3-small''"
  "GPT_4O_MINI sample_VisionModels = ''gpt-4o-mini''"
  by (simp_all add: sample_EmbModels_def sample_VisionModels_def)

lemma null_emb_model_valid: "is_valid_emb_model E JNull"
  by (simp add: is_valid_emb_model_def)

lemma null_vision_model_valid: "is_valid_vision_model V JNull"
  by (simp add: is_valid_vision_model_def)

lemma join_mime_types:
  "join '', '' SUPPORTED_MIME_TYPES =
     ''image/jpeg, image/jpg, image/png, image/gif, image/webp''"
  by (simp add: SUPPORTED_MIME_TYPES_def)

lemma bmp_invalid: "\<not> is_valid_mime_type (JStr ''image/bmp'')"
  by (simp add: is_valid_mime_type_def is_in_def SUPPORTED_MIME_TYPES_def)

lemma join_sample_emb_models:
  "join '', '' (SUPPORTED_EMB_MODELS sample_EmbModels) =
     ''text-embedding-3-small, text-embedding-3-large, text-embedding-ada-002''"
  by (simp add: SUPPORTED_EMB_MODELS_def sample_EmbModels_def)

lemma join_sample_vision_models:
  "join '', '' (SUPPORTED_VISION_MODELS sample_VisionModels) =
     ''gpt-4o-mini, gpt-4o, gpt-4o-turbo, o1''"
  by (simp add: SUPPORTED_VISION_MODELS_def sample_VisionModels_def)

lemma sample_invalid_emb_model:
  "\<not> is_valid_emb_model sample_EmbModels (JStr ''not-a-model'')"
  by (simp add: is_valid_emb_model_def is_in_def SUPPORTED_EMB_MODELS_def sample_EmbModels_def)

lemma sample_invalid_vision_model:
  "\<not> is_valid_vision_model sample_VisionModels (JStr ''not-a-model'')"
  by (simp add: is_valid_vision_model_def is_in_def SUPPORTED_VISION_MODELS_def
        sample_VisionModels_def)

lemma empty_data_invalid: "\<not> is_valid_data dec (JStr [])"
  by (simp add: is_valid_data_def strip_def)

lemma sample_wire_lookups:
  "get [(''data'', JStr ''QUJD''), (''mime_type'', JStr ''image/png'')] ''data'' = JStr ''QUJD''"
  "get [(''data'', JStr ''QUJD''), (''mime_type'', JStr ''image/png'')] ''mime_type'' =
     JStr ''image/png''"
  "map_of [(''data'', JStr ''QUJD''), (''mime_type'', JStr ''image/png'')] ''emb_model'' = None"
  "map_of [(''data'', JStr ''QUJD''), (''mime_type'', JStr ''image/png'')] ''vision_model'' = None"
  by (simp_all add: get_def)

lemma sample_instance:
  "EmbImage_init sample_EmbModels sample_VisionModels sample_b64decode
     (JStr ''QUJD'') (JStr ''image/png'') None None None None None None None =
   Inr \<lparr>data = JStr ''QUJD'', mime_type = JStr ''image/png'', chunks = JList [],
        emb_model = JStr ''text-embedding-3-small'', vision_model = JStr ''gpt-4o-mini'',
        max_chunk_size = JNull, chunk_overlap = JNull, is_separator_regex = JNull,
        separators = JNull, keep_separator = JNull\<rparr>"
proof -
  have "EmbImage_init sample_EmbModels sample_VisionModels sample_b64decode
          (JStr ''QUJD'') (JStr ''image/png'') None None None None None None None =
        Inr \<lparr>data = JStr ''QUJD'', mime_type = JStr ''image/png'', chunks = JList [],
          emb_model = JStr (TEXT_EMBEDDING_3_SMALL sample_EmbModels),
          vision_model = JStr (GPT_4O_MINI sample_VisionModels),
          max_chunk_size = JNull, chunk_overlap = JNull, is_separator_regex = JNull,
          separators = JNull, keep_separator = JNull\<rparr>"
    using init_success [OF sample_valid_data sample_valid_mime_type,
        of sample_EmbModels None sample_VisionModels None None None None None None]
    by (simp add: arg_def default_emb_model_valid default_vision_model_valid)
  then show ?thesis
    by (simp add: sample_default_models)
qed

lemma sample_EmbImage_constructed:
  "EmbImage_init sample_EmbModels sample_VisionModels sample_b64decode
     (JStr ''QUJD'') (JStr ''image/png'') None None None None None None None =
   Inr sample_EmbImage"
  by (simp add: sample_instance sample_EmbImage_def)

lemma from_json_with_chunks:
  "from_json sample_EmbModels sample_VisionModels sample_b64decode
     [(''data'', JStr ''QUJD''), (''mime_type'', JStr ''image/png''),
      (''chunks'', JList [JStr ''a cat'']), (''max_chunk_size'', JInt 200)] =
   Inr \<lparr>data = JStr ''QUJD'', mime_type = JStr ''image/png'',
        chunks = JList [JStr ''a cat''], emb_model = JNull, vision_model = JNull,
        max_chunk_size = JInt 200, chunk_overlap = JNull, is_separator_regex = JNull,
        separators = JNull, keep_separator = JNull\<rparr>"
  using from_json_success [of sample_b64decode
      "[(''data'', JStr ''QUJD''), (''mime_type'', JStr ''image/png''),
        (''chunks'', JList [JStr ''a cat'']), (''max_chunk_size'', JInt 200)]"
      sample_EmbModels sample_VisionModels]
  by (simp add: get_def get_default_def sample_valid_data sample_valid_mime_type
        null_emb_model_valid null_vision_model_valid)

subsection \<open>C2: the chunking arguments are not checked\<close>

text \<open>
  C2, as stated: a construction in which \<^verbatim>\<open>max_chunk_size\<close> and \<^verbatim>\<open>chunk_overlap\<close> are
  both supplied and \<^verbatim>\<open>chunk_overlap >= max_chunk_size\<close> fails. The constructor has
  no such check: with \<^verbatim>\<open>max_chunk_size = 10\<close> and \<^verbatim>\<open>chunk_overlap = 20\<close> it returns
  the instance.
\<close>

theorem EmbImage_init_overlap_not_checked:
  "EmbImage_init sample_EmbModels sample_VisionModels sample_b64decode
     (JStr ''QUJD'') (JStr ''image/png'') None None (Some (JInt 10)) (Some (JInt 20))
     None None None =
   Inr \<lparr>data = JStr ''QUJD'', mime_type = JStr ''image/png'', chunks = JList [],
        emb_model = JStr ''text-embedding-3-small'', vision_model = JStr ''gpt-4o-mini'',
        max_chunk_size = JInt 10, chunk_overlap = JInt 20, is_separator_regex = JNull,
        separators = JNull, keep_separator = JNull\<rparr>"
proof -
  have "EmbImage_init sample_EmbModels sample_VisionModels sample_b64decode
          (JStr ''QUJD'') (JStr ''image/png'') None None (Some (JInt 10)) (Some (JInt 20))
          None None None =
        Inr \<lparr>data = JStr ''QUJD'', mime_type = JStr ''image/png'', chunks = JList [],
          emb_model = JStr (TEXT_EMBEDDING_3_SMALL sample_EmbModels),
          vision_model = JStr (GPT_4O_MINI sample_VisionModels),
          max_chunk_size = JInt 10, chunk_overlap = JInt 20, is_separator_regex = JNull,
          separators = JNull, keep_separator = JNull\<rparr>"
    using init_success [OF sample_valid_data sample_valid_mime_type,
        of sample_EmbModels None sample_VisionModels None
           "Some (JInt 10)" "Some (JInt 20)" None None None]
    by (simp add: arg_def default_emb_model_valid default_vision_model_valid)
  then show ?thesis
    by (simp add: sample_default_models)
qed

text \<open>
  C2, amended: the constructor checks the data, the mime type and the two models
  and nothing else. Whenever these four pass, construction succeeds for every
  \<^verbatim>\<open>max_chunk_size\<close> and every \<^verbatim>\<open>chunk_overlap\<close>, whatever their relation, and the
  instance holds both as given.
\<close>

theorem EmbImage_init_chunking_unconstrained:
  assumes "is_valid_data b64decode d" and "is_valid_mime_type m"
    and "is_valid_emb_model E (arg em (JStr (TEXT_EMBEDDING_3_SMALL E)))"
    and "is_valid_vision_model V (arg vm (JStr (GPT_4O_MINI V)))"
  shows "\<exists>x. EmbImage_init E V b64decode d m em vm (Some size') (Some overlap) isr seps ks
               = Inr x \<and>
             max_chunk_size x = size' \<and> chunk_overlap x = overlap"
  using init_success [OF assms] by (simp add: arg_def)

text \<open>The amended statement at the input of the counterexample.\<close>

theorem EmbImage_init_chunking_unconstrained_witness:
  "is_valid_data sample_b64decode (JStr ''QUJD'') \<and>
   is_valid_mime_type (JStr ''image/png'') \<and>
   (\<exists>x. EmbImage_init sample_EmbModels sample_VisionModels sample_b64decode
          (JStr ''QUJD'') (JStr ''image/png'') None None (Some (JInt 10)) (Some (JInt 20))
          None None None = Inr x \<and>
        max_chunk_size x = JInt 10 \<and> chunk_overlap x = JInt 20)"
proof -
  have e: "is_valid_emb_model sample_EmbModels
             (arg None (JStr (TEXT_EMBEDDING_3_SMALL sample_EmbModels)))"
    by (simp add: arg_def default_emb_model_valid)
  have v: "is_valid_vision_model sample_VisionModels
             (arg None (JStr (GPT_4O_MINI sample_VisionModels)))"
    by (simp add: arg_def default_vision_model_valid)
  from EmbImage_init_chunking_unconstrained
         [OF sample_valid_data sample_valid_mime_type e v, of "JInt 10" "JInt 20" None None None]
  show ?thesis
    using sample_valid_data sample_valid_mime_type by simp
qed

subsection \<open>C8: the order of the checks\<close>

text \<open>
  C8: the constructor checks, in this order, the data (a string that is not blank,
  and that the decoder accepts), the mime type, the embedding model and the vision
  model, each against its fixed list, and raises the error of the first check that
  fails: \<open>Invalid_data\<close>, then \<open>Unsupported_mime_type\<close> with the five supported
  types, then \<open>Invalid_emb_model\<close> and \<open>Invalid_vision_model\<close> with the supported
  models. When all four pass an instance is returned. Empty data is invalid,
  \<^verbatim>\<open>image/bmp\<close> is no supported mime type, and \<^verbatim>\<open>None\<close> passes both model checks.
\<close>

theorem EmbImage_init_validation_order:
  fixes E V b64decode d m em vm mcs co isr seps ks
  defines "emb \<equiv> arg em (JStr (TEXT_EMBEDDING_3_SMALL E))"
    and "vision \<equiv> arg vm (JStr (GPT_4O_MINI V))"
    and "init \<equiv> EmbImage_init E V b64decode d m em vm mcs co isr seps ks"
  shows
    "(\<not> is_valid_data b64decode d \<longrightarrow> init = Inl (ValueError Invalid_data)) \<and>
     (is_valid_data b64decode d \<and> \<not> is_valid_mime_type m \<longrightarrow>
        init = Inl (ValueError (Unsupported_mime_type m
                 ''image/jpeg, image/jpg, image/png, image/gif, image/webp''))) \<and>
     (is_valid_data b64decode d \<and> is_valid_mime_type m \<and> \<not> is_valid_emb_model E emb \<longrightarrow>
        init = Inl (ValueError (Invalid_emb_model emb
                 (join '', '' [TEXT_EMBEDDING_3_SMALL E, TEXT_EMBEDDING_3_LARGE E,
                               TEXT_EMBEDDING_ADA_002 E])))) \<and>
     (is_valid_data b64decode d \<and> is_valid_mime_type m \<and> is_valid_emb_model E emb \<and>
      \<not> is_valid_vision_model V vision \<longrightarrow>
        init = Inl (ValueError (Invalid_vision_model vision
                 (join '', '' [GPT_4O_MINI V, GPT_4O V, GPT_4O_TURBO V, GPT_O1 V])))) \<and>
     (is_valid_data b64decode d \<and> is_valid_mime_type m \<and> is_valid_emb_model E emb \<and>
      is_valid_vision_model V vision \<longrightarrow>
        (\<exists>x. init = Inr x \<and> data x = d \<and> mime_type x = m \<and> emb_model x = emb \<and>
             vision_model x = vision)) \<and>
     is_valid_data b64decode d = (\<exists>s. d = JStr s \<and> strip s \<noteq> [] \<and> b64decode s) \<and>
     is_valid_mime_type m =
       (m \<in> JStr ` {''image/jpeg'', ''image/jpg'', ''image/png'', ''image/gif'',
                    ''image/webp''}) \<and>
     is_valid_emb_model E emb =
       (emb = JNull \<or>
        emb \<in> JStr ` {TEXT_EMBEDDING_3_SMALL E, TEXT_EMBEDDING_3_LARGE E,
                      TEXT_EMBEDDING_ADA_002 E}) \<and>
     is_valid_vision_model V vision =
       (vision = JNull \<or>
        vision \<in> JStr ` {GPT_4O_MINI V, GPT_4O V, GPT_4O_TURBO V, GPT_O1 V}) \<and>
     \<not> is_valid_data b64decode (JStr []) \<and>
     \<not> is_valid_mime_type (JStr ''image/bmp'')"
proof -
  have 1: "\<not> is_valid_data b64decode d \<longrightarrow> init = Inl (ValueError Invalid_data)"
    unfolding init_def by (simp add: init_invalid_data)
  have 2: "is_valid_data b64decode d \<and> \<not> is_valid_mime_type m \<longrightarrow>
        init = Inl (ValueError (Unsupported_mime_type m
                 ''image/jpeg, image/jpg, image/png, image/gif, image/webp''))"
    unfolding init_def by (simp add: init_invalid_mime_type join_mime_types)
  have 3: "is_valid_data b64decode d \<and> is_valid_mime_type m \<and> \<not> is_valid_emb_model E emb \<longrightarrow>
        init = Inl (ValueError (Invalid_emb_model emb
                 (join '', '' [TEXT_EMBEDDING_3_SMALL E, TEXT_EMBEDDING_3_LARGE E,
                               TEXT_EMBEDDING_ADA_002 E])))"
    unfolding init_def emb_def
    using init_invalid_emb_model [of b64decode d m E em V vm mcs co isr seps ks]
    by (simp add: SUPPORTED_EMB_MODELS_def)
  have 4: "is_valid_data b64decode d \<and> is_valid_mime_type m \<and> is_valid_emb_model E emb \<and>
      \<not> is_valid_vision_model V vision \<longrightarrow>
        init = Inl (ValueError (Invalid_vision_model vision
                 (join '', '' [GPT_4O_MINI V, GPT_4O V, GPT_4O_TURBO V, GPT_O1 V])))"
    unfolding init_def emb_def vision_def
    using init_invalid_vision_model [of b64decode d m E em V vm mcs co isr seps ks]
    by (simp add: SUPPORTED_VISION_MODELS_def)
  have 5: "is_valid_data b64decode d \<and> is_valid_mime_type m \<and> is_valid_emb_model E emb \<and>
      is_valid_vision_model V vision \<longrightarrow>
        (\<exists>x. init = Inr x \<and> data x = d \<and> mime_type x = m \<and> emb_model x = emb \<and>
             vision_model x = vision)"
    unfolding init_def emb_def vision_def
    using init_success [of b64decode d m E em V vm mcs co isr seps ks]
    by simp
  have 6: "is_valid_data b64decode d = (\<exists>s. d = JStr s \<and> strip s \<noteq> [] \<and> b64decode s)"
    by (rule is_valid_data_iff)
  have 7: "is_valid_mime_type m =
       (m \<in> JStr ` {''image/jpeg'', ''image/jpg'', ''image/png'', ''image/gif'',
                    ''image/webp''})"
    by (simp add: is_valid_mime_type_def is_in_def SUPPORTED_MIME_TYPES_def)
  have 8: "is_valid_emb_model E emb =
       (emb = JNull \<or>
        emb \<in> JStr ` {TEXT_EMBEDDING_3_SMALL E, TEXT_EMBEDDING_3_LARGE E,
                      TEXT_EMBEDDING_ADA_002 E})"
    by (simp add: is_valid_emb_model_def is_in_def SUPPORTED_EMB_MODELS_def)
  have 9: "is_valid_vision_model V vision =
       (vision = JNull \<or>
        vision \<in> JStr ` {GPT_4O_MINI V, GPT_4O V, GPT_4O_TURBO V, GPT_O1 V})"
    by (simp add: is_valid_vision_model_def is_in_def SUPPORTED_VISION_MODELS_def)
  from 1 2 3 4 5 6 7 8 9 empty_data_invalid bmp_invalid show ?thesis
    by blast
qed

text \<open>
  The five outcomes on concrete arguments: empty data; \<^verbatim>\<open>image/bmp\<close>; an unknown
  embedding model; an unknown vision model; \<^verbatim>\<open>None\<close> for both models.
\<close>

theorem EmbImage_init_validation_order_witness:
  "EmbImage_init sample_EmbModels sample_VisionModels sample_b64decode
     (JStr []) (JStr ''image/bmp'') (Some (JStr ''not-a-model'')) (Some (JStr ''not-a-model''))
     None None None None None = Inl (ValueError Invalid_data) \<and>
   EmbImage_init sample_EmbModels sample_VisionModels sample_b64decode
     (JStr ''QUJD'') (JStr ''image/bmp'') (Some (JStr ''not-a-model''))
     (Some (JStr ''not-a-model'')) None None None None None =
     Inl (ValueError (Unsupported_mime_type (JStr ''image/bmp'')
            ''image/jpeg, image/jpg, image/png, image/gif, image/webp'')) \<and>
   EmbImage_init sample_EmbModels sample_VisionModels sample_b64decode
     (JStr ''QUJD'') (JStr ''image/png'') (Some (JStr ''not-a-model''))
     (Some (JStr ''not-a-model'')) None None None None None =
     Inl (ValueError (Invalid_emb_model (JStr ''not-a-model'')
            ''text-embedding-3-small, text-embedding-3-large, text-embedding-ada-002'')) \<and>
   EmbImage_init sample_EmbModels sample_VisionModels sample_b64decode
     (JStr ''QUJD'') (JStr ''image/png'') (Some JNull) (Some (JStr ''not-a-model''))
     None None None None None =
     Inl (ValueError (Invalid_vision_model (JStr ''not-a-model'')
            ''gpt-4o-mini, gpt-4o, gpt-4o-turbo, o1'')) \<and>
   (\<exists>x. EmbImage_init sample_EmbModels sample_VisionModels sample_b64decode
          (JStr ''QUJD'') (JStr ''image/png'') (Some JNull) (Some JNull)
          None None None None None = Inr x \<and>
        data x = JStr ''QUJD'' \<and> mime_type x = JStr ''image/png'' \<and>
        emb_model x = JNull \<and> vision_model x = JNull)"
proof -
  note facts = sample_valid_data sample_valid_mime_type bmp_invalid empty_data_invalid
    sample_invalid_emb_model sample_invalid_vision_model null_emb_model_valid
    null_vision_model_valid arg_def
  have a: "EmbImage_init sample_EmbModels sample_VisionModels sample_b64decode
     (JStr []) (JStr ''image/bmp'') (Some (JStr ''not-a-model'')) (Some (JStr ''not-a-model''))
     None None None None None = Inl (ValueError Invalid_data)"
    using EmbImage_init_validation_order [of sample_b64decode "JStr []" sample_EmbModels
        sample_VisionModels "JStr ''image/bmp''" "Some (JStr ''not-a-model'')"
        "Some (JStr ''not-a-model'')" None None None None None]
    by (simp add: facts)
  have b: "EmbImage_init sample_EmbModels sample_VisionModels sample_b64decode
     (JStr ''QUJD'') (JStr ''image/bmp'') (Some (JStr ''not-a-model''))
     (Some (JStr ''not-a-model'')) None None None None None =
     Inl (ValueError (Unsupported_mime_type (JStr ''image/bmp'')
            ''image/jpeg, image/jpg, image/png, image/gif, image/webp''))"
    using EmbImage_init_validation_order [of sample_b64decode "JStr ''QUJD''" sample_EmbModels
        sample_VisionModels "JStr ''image/bmp''" "Some (JStr ''not-a-model'')"
        "Some (JStr ''not-a-model'')" None None None None None]
    by (simp add: facts)
  have c: "EmbImage_init sample_EmbModels sample_VisionModels sample_b64decode
     (JStr ''QUJD'') (JStr ''image/png'') (Some (JStr ''not-a-model''))
     (Some (JStr ''not-a-model'')) None None None None None =
     Inl (ValueError (Invalid_emb_model (JStr ''not-a-model'')
            ''text-embedding-3-small, text-embedding-3-large, text-embedding-ada-002''))"
    using EmbImage_init_validation_order [of sample_b64decode "JStr ''QUJD''" sample_EmbModels
        sample_VisionModels "JStr ''image/png''" "Some (JStr ''not-a-model'')"
        "Some (JStr ''not-a-model'')" None None None None None]
      join_sample_emb_models
    by (simp add: facts SUPPORTED_EMB_MODELS_def)
  have d: "EmbImage_init sample_EmbModels sample_VisionModels sample_b64decode
     (JStr ''QUJD'') (JStr ''image/png'') (Some JNull) (Some (JStr ''not-a-model''))
     None None None None None =
     Inl (ValueError (Invalid_vision_model (JStr ''not-a-model'')
            ''gpt-4o-mini, gpt-4o, gpt-4o-turbo, o1''))"
    using EmbImage_init_validation_order [of sample_b64decode "JStr ''QUJD''" sample_EmbModels
        sample_VisionModels "JStr ''image/png''" "Some JNull"
        "Some (JStr ''not-a-model'')" None None None None None]
      join_sample_vision_models
    by (simp add: facts SUPPORTED_VISION_MODELS_def)
  have e: "\<exists>x. EmbImage_init sample_EmbModels sample_VisionModels sample_b64decode
          (JStr ''QUJD'') (JStr ''image/png'') (Some JNull) (Some JNull)
          None None None None None = Inr x \<and>
        data x = JStr ''QUJD'' \<and> mime_type x = JStr ''image/png'' \<and>
        emb_model x = JNull \<and> vision_model x = JNull"
    using EmbImage_init_validation_order [of sample_b64decode "JStr ''QUJD''" sample_EmbModels
        sample_VisionModels "JStr ''image/png''" "Some JNull" "Some JNull"
        None None None None None]
    by (simp add: facts)
  from a b c d e show ?thesis by (intro conjI)
qed

subsection \<open>C10: the defaults of the constructor\<close>

text \<open>
  C10: a construction that supplies neither \<^verbatim>\<open>emb_model\<close> nor \<^verbatim>\<open>vision_model\<close>
  succeeds whenever data and mime type are valid, and yields an instance whose
  models are \<^verbatim>\<open>TEXT_EMBEDDING_3_SMALL\<close> and \<^verbatim>\<open>GPT_4O_MINI\<close>, both present in its
  serialisation. Reconstruction from a wire object without these two keys (its
  data and mime type valid) yields an instance whose models are both \<^verbatim>\<open>None\<close>,
  and its serialisation has neither key.
\<close>

theorem EmbImage_defaults_only_in_constructor:
  "(is_valid_data b64decode d \<and> is_valid_mime_type m \<longrightarrow>
      (\<exists>x. EmbImage_init E V b64decode d m None None mcs co isr seps ks = Inr x \<and>
           emb_model x = JStr (TEXT_EMBEDDING_3_SMALL E) \<and>
           vision_model x = JStr (GPT_4O_MINI V) \<and>
           map_of (to_json_result x) ''emb_model'' = Some (JStr (TEXT_EMBEDDING_3_SMALL E)) \<and>
           map_of (to_json_result x) ''vision_model'' = Some (JStr (GPT_4O_MINI V)))) \<and>
   (is_valid_data b64decode (get w ''data'') \<and> is_valid_mime_type (get w ''mime_type'') \<and>
    map_of w ''emb_model'' = None \<and> map_of w ''vision_model'' = None \<longrightarrow>
      (\<exists>y. from_json E V b64decode w = Inr y \<and>
           emb_model y = JNull \<and> vision_model y = JNull \<and>
           map_of (to_json_result y) ''emb_model'' = None \<and>
           map_of (to_json_result y) ''vision_model'' = None))"
proof (intro conjI impI)
  assume "is_valid_data b64decode d \<and> is_valid_mime_type m"
  then show "\<exists>x. EmbImage_init E V b64decode d m None None mcs co isr seps ks = Inr x \<and>
           emb_model x = JStr (TEXT_EMBEDDING_3_SMALL E) \<and>
           vision_model x = JStr (GPT_4O_MINI V) \<and>
           map_of (to_json_result x) ''emb_model'' = Some (JStr (TEXT_EMBEDDING_3_SMALL E)) \<and>
           map_of (to_json_result x) ''vision_model'' = Some (JStr (GPT_4O_MINI V))"
    using init_success [of b64decode d m E None V None mcs co isr seps ks]
    by (simp add: arg_def default_emb_model_valid default_vision_model_valid
          result_emb_model result_vision_model)
next
  assume "is_valid_data b64decode (get w ''data'') \<and> is_valid_mime_type (get w ''mime_type'') \<and>
    map_of w ''emb_model'' = None \<and> map_of w ''vision_model'' = None"
  then show "\<exists>y. from_json E V b64decode w = Inr y \<and>
           emb_model y = JNull \<and> vision_model y = JNull \<and>
           map_of (to_json_result y) ''emb_model'' = None \<and>
           map_of (to_json_result y) ''vision_model'' = None"
    using from_json_success [of b64decode w E V]
    by (simp add: get_def null_emb_model_valid null_vision_model_valid
          result_emb_model result_vision_model)
qed

text \<open>Both paths on the same data and mime type.\<close>

theorem EmbImage_defaults_only_in_constructor_witness:
  "(\<exists>x. EmbImage_init sample_EmbModels sample_VisionModels sample_b64decode
          (JStr ''QUJD'') (JStr ''image/png'') None None None None None None None = Inr x \<and>
        emb_model x = JStr ''text-embedding-3-small'' \<and>
        vision_model x = JStr ''gpt-4o-mini'' \<and>
        map_of (to_json_result x) ''emb_model'' = Some (JStr ''text-embedding-3-small'') \<and>
        map_of (to_json_result x) ''vision_model'' = Some (JStr ''gpt-4o-mini'')) \<and>
   (\<exists>y. from_json sample_EmbModels sample_VisionModels sample_b64decode
          [(''data'', JStr ''QUJD''), (''mime_type'', JStr ''image/png'')] = Inr y \<and>
        emb_model y = JNull \<and> vision_model y = JNull \<and>
        map_of (to_json_result y) ''emb_model'' = None \<and>
        map_of (to_json_result y) ''vision_model'' = None)"
  using EmbImage_defaults_only_in_constructor
          [of sample_b64decode "JStr ''QUJD''" "JStr ''image/png''"
              sample_EmbModels sample_VisionModels None None None None None
              "[(''data'', JStr ''QUJD''), (''mime_type'', JStr ''image/png'')]"]
  by (simp add: sample_valid_data sample_valid_mime_type sample_wire_lookups
        sample_default_models)

subsection \<open>C7: what the serialisation contains\<close>

text \<open>
  C7: for every instance, built by the constructor or by \<open>from_json\<close>, the
  dictionary that \<open>to_json\<close> puts under \<^verbatim>\<open>@embImage\<close> always has the keys \<^verbatim>\<open>data\<close> and
  \<^verbatim>\<open>mime_type\<close>; it has the key \<^verbatim>\<open>chunks\<close> exactly when the chunks are true in
  Python's sense (for a list: not empty); it has the key of each of the seven
  optional attributes exactly when the attribute is not \<^verbatim>\<open>None\<close>; it has no other
  key, and none of its values is \<^verbatim>\<open>None\<close>.
\<close>

theorem to_json_omission_contract:
  assumes "EmbImage_init E V b64decode d m em vm mcs co isr seps ks = Inr x \<or>
           from_json E V b64decode w = Inr x"
  shows "to_json x = [(''@embImage'', JDict (to_json_result x))] \<and>
         map_of (to_json_result x) ''data'' = Some (data x) \<and>
         map_of (to_json_result x) ''mime_type'' = Some (mime_type x) \<and>
         (''chunks'' \<in> set (map fst (to_json_result x))) = truthy (chunks x) \<and>
         (''emb_model'' \<in> set (map fst (to_json_result x))) = (emb_model x \<noteq> JNull) \<and>
         (''vision_model'' \<in> set (map fst (to_json_result x))) = (vision_model x \<noteq> JNull) \<and>
         (''max_chunk_size'' \<in> set (map fst (to_json_result x))) =
           (max_chunk_size x \<noteq> JNull) \<and>
         (''chunk_overlap'' \<in> set (map fst (to_json_result x))) =
           (chunk_overlap x \<noteq> JNull) \<and>
         (''is_separator_regex'' \<in> set (map fst (to_json_result x))) =
           (is_separator_regex x \<noteq> JNull) \<and>
         (''separators'' \<in> set (map fst (to_json_result x))) = (separators x \<noteq> JNull) \<and>
         (''keep_separator'' \<in> set (map fst (to_json_result x))) =
           (keep_separator x \<noteq> JNull) \<and>
         set (map fst (to_json_result x)) \<subseteq>
           {''data'', ''mime_type'', ''chunks'', ''emb_model'', ''vision_model'',
            ''max_chunk_size'', ''chunk_overlap'', ''is_separator_regex'', ''separators'',
            ''keep_separator''} \<and>
         JNull \<notin> set (map snd (to_json_result x))"
proof -
  from assms have v: "valid_instance E V b64decode x"
    using init_valid_instance(1) from_json_Inr(2) by blast
  have keys: "set (map fst (to_json_result x)) \<subseteq>
           {''data'', ''mime_type'', ''chunks'', ''emb_model'', ''vision_model'',
            ''max_chunk_size'', ''chunk_overlap'', ''is_separator_regex'', ''separators'',
            ''keep_separator''}"
    unfolding result_keys by (simp only: set_append) auto
  have present: "(k \<in> set (map fst (to_json_result x))) =
                   (map_of (to_json_result x) k \<noteq> None)" for k
    by (rule key_present)
  show ?thesis
    unfolding present
    using keys result_no_null [OF v]
    by (simp add: to_json_def result_lookups)
qed

text \<open>The serialisation of an instance built with the defaults.\<close>

theorem to_json_omission_contract_witness:
  "to_json_result sample_EmbImage =
     [(''data'', JStr ''QUJD''), (''mime_type'', JStr ''image/png''),
      (''emb_model'', JStr ''text-embedding-3-small''),
      (''vision_model'', JStr ''gpt-4o-mini'')] \<and>
   JNull \<notin> set (map snd (to_json_result sample_EmbImage))"
proof -
  have r: "to_json_result sample_EmbImage =
     [(''data'', JStr ''QUJD''), (''mime_type'', JStr ''image/png''),
      (''emb_model'', JStr ''text-embedding-3-small''),
      (''vision_model'', JStr ''gpt-4o-mini'')]"
    by (simp add: to_json_result_def put_def sample_EmbImage_def)
  from to_json_omission_contract [OF disjI1 [OF sample_EmbImage_constructed]]
  have "JNull \<notin> set (map snd (to_json_result sample_EmbImage))"
    by (elim conjE)
  with r show ?thesis by (intro conjI)
qed

subsection \<open>C4: serialising and deserialising\<close>

text \<open>
  C4, as stated: \<open>from_json\<close> applied to what \<open>to_json\<close> returns gives back the
  instance. \<open>to_json\<close> returns the dictionary tagged \<^verbatim>\<open>@embImage\<close>, while \<open>from_json\<close>
  expects the dictionary under the tag: on the serialisation itself it finds no
  \<^verbatim>\<open>data\<close> and raises.
\<close>

theorem from_json_of_to_json_fails:
  "EmbImage_init sample_EmbModels sample_VisionModels sample_b64decode
     (JStr ''QUJD'') (JStr ''image/png'') None None None None None None None =
     Inr sample_EmbImage \<and>
   from_json sample_EmbModels sample_VisionModels sample_b64decode (to_json sample_EmbImage) =
     Inl (ValueError Missing_data)"
  by (simp add: sample_EmbImage_constructed from_json_def to_json_def get_def)

text \<open>
  A wire object whose \<^verbatim>\<open>chunks\<close> is \<^verbatim>\<open>null\<close> is reconstructed with \<^verbatim>\<open>_chunks = None\<close>;
  the serialisation leaves a false \<^verbatim>\<open>_chunks\<close> out, and the second reconstruction
  has the empty list.
\<close>

lemma from_json_null_chunks:
  "from_json sample_EmbModels sample_VisionModels sample_b64decode
     [(''data'', JStr ''QUJD''), (''mime_type'', JStr ''image/png''), (''chunks'', JNull)] =
   Inr \<lparr>data = JStr ''QUJD'', mime_type = JStr ''image/png'', chunks = JNull,
        emb_model = JNull, vision_model = JNull,
        max_chunk_size = JNull, chunk_overlap = JNull, is_separator_regex = JNull,
        separators = JNull, keep_separator = JNull\<rparr>"
  using from_json_success [of sample_b64decode
      "[(''data'', JStr ''QUJD''), (''mime_type'', JStr ''image/png''), (''chunks'', JNull)]"
      sample_EmbModels sample_VisionModels]
  by (simp add: get_def get_default_def sample_valid_data sample_valid_mime_type
        null_emb_model_valid null_vision_model_valid)

lemma round_trip_null_chunks:
  "from_json sample_EmbModels sample_VisionModels sample_b64decode
     (to_json_result
        \<lparr>data = JStr ''QUJD'', mime_type = JStr ''image/png'', chunks = JNull,
          emb_model = JNull, vision_model = JNull,
          max_chunk_size = JNull, chunk_overlap = JNull, is_separator_regex = JNull,
          separators = JNull, keep_separator = JNull\<rparr>) =
   Inr \<lparr>data = JStr ''QUJD'', mime_type = JStr ''image/png'', chunks = JList [],
        emb_model = JNull, vision_model = JNull,
        max_chunk_size = JNull, chunk_overlap = JNull, is_separator_regex = JNull,
        separators = JNull, keep_separator = JNull\<rparr>"
  using from_json_to_json_result [OF from_json_Inr(2) [OF from_json_null_chunks]]
  by simp

text \<open>
  C4, amended: \<open>from_json\<close> applied to the dictionary under the tag \<^verbatim>\<open>@embImage\<close>
  of the serialisation gives back the instance, all ten attributes equal, for
  every instance the constructor returns, and for every instance \<open>from_json\<close>
  returns on a wire object whose \<^verbatim>\<open>chunks\<close> is absent or a list (empty or not).
\<close>

theorem from_json_to_json_round_trip:
  "(EmbImage_init E V b64decode d m em vm mcs co isr seps ks = Inr x \<longrightarrow>
      get (to_json x) ''@embImage'' = JDict (to_json_result x) \<and>
      from_json E V b64decode (to_json_result x) = Inr x) \<and>
   (from_json E V b64decode w = Inr y \<and> get_default w ''chunks'' (JList []) = JList cs \<longrightarrow>
      get (to_json y) ''@embImage'' = JDict (to_json_result y) \<and>
      from_json E V b64decode (to_json_result y) = Inr y)"
proof (intro conjI impI)
  show "get (to_json x) ''@embImage'' = JDict (to_json_result x)"
    by (simp add: to_json_def get_def)
  show "get (to_json y) ''@embImage'' = JDict (to_json_result y)"
    by (simp add: to_json_def get_def)
next
  assume a: "EmbImage_init E V b64decode d m em vm mcs co isr seps ks = Inr x"
  from init_valid_instance [OF a] from_json_to_json_result [of E V b64decode x]
  show "from_json E V b64decode (to_json_result x) = Inr x"
    by simp
next
  assume a: "from_json E V b64decode w = Inr y \<and>
             get_default w ''chunks'' (JList []) = JList cs"
  then have "chunks y = JList cs"
    using from_json_Inr(1) [of E V b64decode w y] by simp
  then have "(if truthy (chunks y) then chunks y else JList []) = chunks y"
    by simp
  with a from_json_Inr(2) [of E V b64decode w y]
    from_json_to_json_result [of E V b64decode y]
  show "from_json E V b64decode (to_json_result y) = Inr y"
    by simp
qed

text \<open>Both cases: a constructed instance, and one reconstructed with chunks.\<close>

theorem from_json_to_json_round_trip_witness:
  "from_json sample_EmbModels sample_VisionModels sample_b64decode
     (to_json_result sample_EmbImage) = Inr sample_EmbImage \<and>
   from_json sample_EmbModels sample_VisionModels sample_b64decode
     (to_json_result
        \<lparr>data = JStr ''QUJD'', mime_type = JStr ''image/png'',
          chunks = JList [JStr ''a cat''], emb_model = JNull, vision_model = JNull,
          max_chunk_size = JInt 200, chunk_overlap = JNull, is_separator_regex = JNull,
          separators = JNull, keep_separator = JNull\<rparr>) =
   Inr \<lparr>data = JStr ''QUJD'', mime_type = JStr ''image/png'',
        chunks = JList [JStr ''a cat''], emb_model = JNull, vision_model = JNull,
        max_chunk_size = JInt 200, chunk_overlap = JNull, is_separator_regex = JNull,
        separators = JNull, keep_separator = JNull\<rparr>"
proof -
  have c: "get_default [(''data'', JStr ''QUJD''), (''mime_type'', JStr ''image/png''),
      (''chunks'', JList [JStr ''a cat'']), (''max_chunk_size'', JInt 200)] ''chunks''
      (JList []) = JList [JStr ''a cat'']"
    by (simp add: get_default_def)
  from from_json_to_json_round_trip
         [of sample_EmbModels sample_VisionModels sample_b64decode
             "JStr ''QUJD''" "JStr ''image/png''" None None None None None None None _
             "[(''data'', JStr ''QUJD''), (''mime_type'', JStr ''image/png''),
               (''chunks'', JList [JStr ''a cat'']), (''max_chunk_size'', JInt 200)]" _
             "[JStr ''a cat'']"]
    sample_EmbImage_constructed from_json_with_chunks c
  show ?thesis by simp
qed

section \<open>The document transformer\<close>

lemma update_middle:
  "k \<notin> fst ` set ys \<Longrightarrow> AList.update k w (ys @ (k, v) # zs) = ys @ (k, w) # zs"
  by (induction ys) auto

lemma fold_update_distinct:
  assumes "distinct (map fst (pre @ xs))"
  shows "fold (\<lambda>(k, v) doc. if a v then AList.update k (g v) doc else doc) xs
           (map (\<lambda>(k, v). (k, if a v then g v else v)) pre @ xs) =
         map (\<lambda>(k, v). (k, if a v then g v else v)) (pre @ xs)"
  using assms
proof (induction xs arbitrary: pre)
  case Nil
  show ?case by simp
next
  case (Cons x xs)
  obtain k v where x: "x = (k, v)" by (cases x)
  let ?G = "\<lambda>(k, v). (k, if a v then g v else v)"
  from Cons.prems x have k: "k \<notin> fst ` set (map ?G pre)"
    by (auto simp: image_iff)
  have step: "(if a v then AList.update k (g v) (map ?G pre @ (k, v) # xs)
               else map ?G pre @ (k, v) # xs) = map ?G (pre @ [x]) @ xs"
    using update_middle [OF k, of "g v" v xs] by (simp add: x)
  from Cons.prems have d: "distinct (map fst ((pre @ [x]) @ xs))" by simp
  have "fold (\<lambda>(k, v) doc. if a v then AList.update k (g v) doc else doc) (x # xs)
          (map ?G pre @ x # xs) =
        fold (\<lambda>(k, v) doc. if a v then AList.update k (g v) doc else doc) xs
          (map ?G (pre @ [x]) @ xs)"
    using step by (simp add: x)
  also have "\<dots> = map ?G ((pre @ [x]) @ xs)"
    by (rule Cons.IH [OF d])
  finally show ?case by simp
qed

lemma transform_emb_text_entries:
  assumes "distinct (map fst document)"
  shows "transform_emb_text tj document = map (\<lambda>(k, v). (k, new_value tj v)) document"
proof -
  have f: "(\<lambda>(key, value) document.
        case value of
          PyEmbText e \<Rightarrow> AList.update key (tj e) document
        | PyDict d \<Rightarrow>
            AList.update key (PyDict (transform_emb_text tj d)) document
        | PyList xs \<Rightarrow>
            AList.update key
              (PyList (map (\<lambda>item. case item of
                                      PyDict d \<Rightarrow> PyDict (transform_emb_text tj d)
                                    | _ \<Rightarrow> item) xs))
              document
        | _ \<Rightarrow> document) =
     (\<lambda>(k, v) doc. if assigned v then AList.update k (new_value tj v) doc else doc)"
    by (auto simp: fun_eq_iff assigned_def new_value_def split: pyval.splits)
  have g: "(\<lambda>(k, v). (k, if assigned v then new_value tj v else v)) =
           (\<lambda>(k, v). (k, new_value tj v))"
    by (auto simp: fun_eq_iff assigned_def new_value_def split: pyval.splits)
  show ?thesis
    using fold_update_distinct [of "[]" document assigned "new_value tj"] assms
    by (subst transform_emb_text.simps) (simp add: f g)
qed

lemma transform_emb_text_spec:
  "keys_distinct (PyDict document) \<Longrightarrow>
   transform_emb_text tj document = map (\<lambda>(k, v). (k, spec_value tj v)) document"
proof (induction tj document rule: transform_emb_text.induct)
  case (1 tj document)
  from "1.prems" have dist: "distinct (map fst document)"
    and nested: "\<And>k v. (k, v) \<in> set document \<Longrightarrow> keys_distinct v"
    by (auto simp: list_all_iff)
  have dict: "transform_emb_text tj d = map (\<lambda>(k, v). (k, spec_value tj v)) d"
    if "(k, PyDict d) \<in> set document" for k d
    using "1.IH"(2) [OF that refl refl] nested [OF that] by simp
  have elem: "(case item of PyDict d \<Rightarrow> PyDict (transform_emb_text tj d) | _ \<Rightarrow> item) =
              spec_element tj item"
    if "(k, PyList xs) \<in> set document" and "item \<in> set xs" for k xs item
  proof (cases item)
    case (PyDict d)
    from nested [OF that(1)] that(2) have "keys_distinct item"
      by (auto simp: list_all_iff)
    then have "keys_distinct (PyDict d)"
      by (simp only: PyDict)
    with "1.IH"(1) [OF that(1) refl refl that(2) PyDict] PyDict show ?thesis by simp
  qed simp_all
  have "new_value tj v = spec_value tj v" if "(k, v) \<in> set document" for k v
  proof (cases v)
    case (PyDict d)
    with dict that show ?thesis by (simp add: new_value_def)
  next
    case (PyList xs)
    with elem that show ?thesis by (simp add: new_value_def cong: map_cong)
  qed (simp_all add: new_value_def)
  then have "map (\<lambda>(k, v). (k, new_value tj v)) document =
             map (\<lambda>(k, v). (k, spec_value tj v)) document"
    by auto
  with transform_emb_text_entries [OF dist] show ?case by simp
qed

lemma no_EmbText_spec:
  "no_EmbText v \<Longrightarrow> spec_value tj v = v"
  "no_EmbText v \<Longrightarrow> spec_element tj v = v"
  by (induction tj v and tj v rule: spec_value_spec_element.induct)
    (auto simp: list_all_iff intro!: map_idI)

lemma transform_emb_text_keys:
  "distinct (map fst document) \<Longrightarrow>
   map fst (transform_emb_text tj document) = map fst document"
  by (simp add: transform_emb_text_entries case_prod_unfold comp_def)

lemma transform_emb_text_list_value:
  assumes "distinct (map fst document)" and "(key, PyList xs) \<in> set document"
  shows "map_of (transform_emb_text tj document) key =
           Some (PyList (map (\<lambda>item. case item of
                                PyDict d \<Rightarrow> PyDict (transform_emb_text tj d)
                              | _ \<Rightarrow> item) xs))"
proof -
  have "map_of (map (\<lambda>(k, v). (k, new_value tj v)) document) key =
          map_option (new_value tj) (map_of document key)"
    by (induction document) auto
  with assms show ?thesis
    by (simp add: transform_emb_text_entries new_value_def)
qed

subsection \<open>C1: what the transformer replaces\<close>

text \<open>
  C1, as stated: every media object that occurs as the value of a mapping is
  replaced by its wire form. The transformer walks the mappings that are values
  of mappings and the mappings that are elements of a list that is such a value,
  and nothing else: an \<^verbatim>\<open>EmbText\<close> that is the value of a mapping inside a list
  inside a list stays as it is.
\<close>

theorem transform_emb_text_skips_nested_list:
  "transform_emb_text sample_EmbText_to_json
     [(''a'', PyList [PyList [PyDict [(''b'', PyEmbText ''x'')]]])] =
     [(''a'', PyList [PyList [PyDict [(''b'', PyEmbText ''x'')]]])]"
  by (simp add: transform_emb_text_entries new_value_def)

text \<open>
  The loop tests \<^verbatim>\<open>isinstance(value, EmbText)\<close> only: the document of the usage
  example in the docstring of \<^verbatim>\<open>EmbImage\<close> comes back with its \<^verbatim>\<open>EmbImage\<close>.
\<close>

lemma transform_emb_text_leaves_EmbImage:
  "transform_emb_text sample_EmbText_to_json
     [(''title'', PyStr ''Image Document''), (''image'', PyEmbImage sample_EmbImage)] =
     [(''title'', PyStr ''Image Document''), (''image'', PyEmbImage sample_EmbImage)]"
  by (simp add: transform_emb_text_entries new_value_def)

text \<open>
  C1, amended: for every document without an \<^verbatim>\<open>EmbImage\<close> (its dictionaries with
  distinct keys, as Python's are), the transformer returns the document with the
  same keys in the same order, in which the value of every entry is as the walking
  contract \<open>spec_value\<close> says: an \<^verbatim>\<open>EmbText\<close> is replaced by its wire form, a mapping
  is walked, of a list the elements that are mappings are walked and the other
  elements stay, and every other value stays. A document without an \<^verbatim>\<open>EmbText\<close>
  comes back unchanged.
\<close>

theorem transform_emb_text_walk:
  assumes "keys_distinct (PyDict document)" and "no_EmbImage (PyDict document)"
  shows "transform_emb_text EmbText_to_json document =
           map (\<lambda>(key, value). (key, spec_value EmbText_to_json value)) document \<and>
         map fst (transform_emb_text EmbText_to_json document) = map fst document \<and>
         (no_EmbText (PyDict document) \<longrightarrow>
            transform_emb_text EmbText_to_json document = document)"
proof (intro conjI impI)
  show s: "transform_emb_text EmbText_to_json document =
           map (\<lambda>(key, value). (key, spec_value EmbText_to_json value)) document"
    using assms(1) by (rule transform_emb_text_spec)
  from assms(1) show "map fst (transform_emb_text EmbText_to_json document) = map fst document"
    by (simp add: transform_emb_text_keys)
  assume "no_EmbText (PyDict document)"
  then have "spec_value EmbText_to_json (PyDict document) = PyDict document"
    by (rule no_EmbText_spec)
  with s show "transform_emb_text EmbText_to_json document = document"
    by simp
qed

text \<open>
  A document with an \<^verbatim>\<open>EmbText\<close> at every kind of position, and one without media.
\<close>

theorem transform_emb_text_walk_witness:
  "transform_emb_text sample_EmbText_to_json
     [(''title'', PyStr ''t''),
      (''a'', PyDict [(''b'', PyEmbText ''x'')]),
      (''l'', PyList [PyEmbText ''y'', PyDict [(''c'', PyEmbText ''z'')], PyInt 1,
                      PyList [PyDict [(''d'', PyEmbText ''w'')]]]),
      (''e'', PyEmbText ''v'')] =
     [(''title'', PyStr ''t''),
      (''a'', PyDict [(''b'', PyDict [(''@embText'', PyDict [(''data'', PyStr ''x'')])])]),
      (''l'', PyList [PyEmbText ''y'',
                      PyDict [(''c'', PyDict [(''@embText'', PyDict [(''data'', PyStr ''z'')])])],
                      PyInt 1,
                      PyList [PyDict [(''d'', PyEmbText ''w'')]]]),
      (''e'', PyDict [(''@embText'', PyDict [(''data'', PyStr ''v'')])])] \<and>
   transform_emb_text sample_EmbText_to_json
     [(''title'', PyStr ''t''), (''n'', PyList [PyInt 1, PyDict [(''k'', PyNone)]])] =
     [(''title'', PyStr ''t''), (''n'', PyList [PyInt 1, PyDict [(''k'', PyNone)]])]"
proof -
  have a: "transform_emb_text sample_EmbText_to_json
     [(''title'', PyStr ''t''),
      (''a'', PyDict [(''b'', PyEmbText ''x'')]),
      (''l'', PyList [PyEmbText ''y'', PyDict [(''c'', PyEmbText ''z'')], PyInt 1,
                      PyList [PyDict [(''d'', PyEmbText ''w'')]]]),
      (''e'', PyEmbText ''v'')] =
     [(''title'', PyStr ''t''),
      (''a'', PyDict [(''b'', PyDict [(''@embText'', PyDict [(''data'', PyStr ''x'')])])]),
      (''l'', PyList [PyEmbText ''y'',
                      PyDict [(''c'', PyDict [(''@embText'', PyDict [(''data'', PyStr ''z'')])])],
                      PyInt 1,
                      PyList [PyDict [(''d'', PyEmbText ''w'')]]]),
      (''e'', PyDict [(''@embText'', PyDict [(''data'', PyStr ''v'')])])]"
    using transform_emb_text_walk [of
      "[(''title'', PyStr ''t''),
        (''a'', PyDict [(''b'', PyEmbText ''x'')]),
        (''l'', PyList [PyEmbText ''y'', PyDict [(''c'', PyEmbText ''z'')], PyInt 1,
                        PyList [PyDict [(''d'', PyEmbText ''w'')]]]),
        (''e'', PyEmbText ''v'')]" sample_EmbText_to_json]
    by (simp add: sample_EmbText_to_json_def)
  have b: "transform_emb_text sample_EmbText_to_json
     [(''title'', PyStr ''t''), (''n'', PyList [PyInt 1, PyDict [(''k'', PyNone)]])] =
     [(''title'', PyStr ''t''), (''n'', PyList [PyInt 1, PyDict [(''k'', PyNone)]])]"
    using transform_emb_text_walk [of
      "[(''title'', PyStr ''t''), (''n'', PyList [PyInt 1, PyDict [(''k'', PyNone)]])]"
      sample_EmbText_to_json]
    by simp
  from a b show ?thesis by (intro conjI)
qed

subsection \<open>C9: media objects in the mappings of a list\<close>

text \<open>
  C9 says that a media object inside a mapping inside a list is transformed. The
  transformer is applied to the mapping (\<open>transform_emb_text_list_value\<close>), and
  there it replaces an \<^verbatim>\<open>EmbText\<close> but not an \<^verbatim>\<open>EmbImage\<close>.
\<close>

theorem transform_emb_text_EmbImage_in_list:
  "transform_emb_text sample_EmbText_to_json
     [(''a'', PyList [PyDict [(''img'', PyEmbImage sample_EmbImage)]])] =
     [(''a'', PyList [PyDict [(''img'', PyEmbImage sample_EmbImage)]])] \<and>
   transform_emb_text sample_EmbText_to_json
     [(''a'', PyList [PyDict [(''txt'', PyEmbText ''x'')]])] =
     [(''a'', PyList [PyDict [(''txt'',
         PyDict [(''@embText'', PyDict [(''data'', PyStr ''x'')])])]])]"
  by (simp add: transform_emb_text_entries new_value_def sample_EmbText_to_json_def)

section \<open>The classification of responses\<close>

lemma handle_response_no_error_status:
  "\<not> (400 \<le> status_code r \<and> status_code r < 600) \<Longrightarrow>
   handle_response r = (case json r of None \<Rightarrow> Inl JSONDecodeError | Some payload \<Rightarrow> Inr payload)"
  by (simp add: handle_response_def raise_for_status_def)

lemma handle_response_not_json:
  "400 \<le> status_code r \<Longrightarrow> status_code r < 600 \<Longrightarrow> json r = None \<Longrightarrow>
   handle_response r = Inl (APIClientError (JInt (status_code r)) (JStr (text' r)))"
  by (simp add: handle_response_def raise_for_status_def)

lemma handle_response_envelope:
  assumes "400 \<le> status_code r" and "status_code r < 600"
    and "json r = Some (JDict error_data)"
    and "as_int (get_default error_data ''code'' (JInt 500)) = Some n"
  shows "handle_response r =
     Inl ((if n = 401 then AuthenticationError
           else if 400 \<le> n \<and> n < 500 then ClientRequestError
           else ServerError)
            (get_default error_data ''code'' (JInt 500))
            (get_default error_data ''message'' (JStr ''An unknown error occurred.'')))"
  using assms
  by (auto simp add: handle_response_def raise_for_status_def Let_def py_eq_def py_ge_def
        py_lt_def split: bool.splits)

lemma handle_response_code_not_a_number:
  assumes "400 \<le> status_code r" and "status_code r < 600"
    and "json r = Some (JDict error_data)"
    and "as_int (get_default error_data ''code'' (JInt 500)) = None"
  shows "handle_response r = Inl TypeError"
  using assms
  by (simp add: handle_response_def raise_for_status_def Let_def py_eq_def py_ge_def py_lt_def)

lemma handle_response_not_a_dict:
  assumes "400 \<le> status_code r" and "status_code r < 600"
    and "json r = Some v" and "\<forall>d. v \<noteq> JDict d"
  shows "handle_response r = Inl AttributeError"
  using assms
  by (cases v) (simp_all add: handle_response_def raise_for_status_def)

subsection \<open>C3: the classification of error responses\<close>

text \<open>
  C3, as stated: every status outside 200 to 299 with a body that decodes is
  classified as a failure. The status is tested by \<^verbatim>\<open>raise_for_status\<close>, which raises
  from 400 on only: a response with status 302 and the body \<^verbatim>\<open>{}\<close> is returned as a
  success, where the claim has the failure of kind Server with code 500.
\<close>

theorem handle_response_redirect_not_classified:
  "handle_response \<lparr>status_code = 302, text' = ''{}'', json = Some (JDict [])\<rparr> =
     Inr (JDict [])"
  by (simp add: handle_response_def raise_for_status_def)

text \<open>
  C3, amended: for every status from 400 to 599, a body that is no JSON yields
  \<open>APIClientError\<close> with the status and the raw text; a body that decodes to an
  object whose \<^verbatim>\<open>code\<close> (500 when absent) is an integer yields, with this code and
  the \<^verbatim>\<open>message\<close> (\<^verbatim>\<open>An unknown error occurred.\<close> when absent),
  \<open>AuthenticationError\<close> when the code is 401, \<open>ClientRequestError\<close> when it is
  from 400 to 499 and not 401, and \<open>ServerError\<close> otherwise.
\<close>

theorem handle_response_classification:
  assumes "400 \<le> status_code r" and "status_code r < 600"
  shows
    "(json r = None \<longrightarrow>
        handle_response r = Inl (APIClientError (JInt (status_code r)) (JStr (text' r)))) \<and>
     (json r = Some (JDict error_data) \<and>
      code = get_default error_data ''code'' (JInt 500) \<and>
      message = get_default error_data ''message'' (JStr ''An unknown error occurred.'') \<and>
      as_int code = Some n \<longrightarrow>
        (n = 401 \<longrightarrow> handle_response r = Inl (AuthenticationError code message)) \<and>
        (400 \<le> n \<and> n < 500 \<and> n \<noteq> 401 \<longrightarrow>
           handle_response r = Inl (ClientRequestError code message)) \<and>
        (\<not> (400 \<le> n \<and> n < 500) \<longrightarrow>
           handle_response r = Inl (ServerError code message))) \<and>
     (map_of error_data ''code'' = None \<longrightarrow>
        get_default error_data ''code'' (JInt 500) = JInt 500) \<and>
     (map_of error_data ''message'' = None \<longrightarrow>
        get_default error_data ''message'' (JStr ''An unknown error occurred.'') =
          JStr ''An unknown error occurred.'') \<and>
     (map_of error_data ''status'' = None \<longrightarrow>
        get_default error_data ''status'' (JStr ''error'') = JStr ''error'')"
proof (intro conjI impI)
  assume "json r = None"
  with assms show "handle_response r =
      Inl (APIClientError (JInt (status_code r)) (JStr (text' r)))"
    by (rule handle_response_not_json)
next
  assume a: "json r = Some (JDict error_data) \<and>
      code = get_default error_data ''code'' (JInt 500) \<and>
      message = get_default error_data ''message'' (JStr ''An unknown error occurred.'') \<and>
      as_int code = Some n"
  then have j: "json r = Some (JDict error_data)"
    and c: "as_int (get_default error_data ''code'' (JInt 500)) = Some n"
    by auto
  from a have e: "handle_response r =
     Inl ((if n = 401 then AuthenticationError
           else if 400 \<le> n \<and> n < 500 then ClientRequestError
           else ServerError) code message)"
    using handle_response_envelope [OF assms j c] by auto
  { assume "n = 401"
    with e show "handle_response r = Inl (AuthenticationError code message)" by simp }
  { assume "400 \<le> n \<and> n < 500 \<and> n \<noteq> 401"
    with e show "handle_response r = Inl (ClientRequestError code message)" by simp }
  { assume "\<not> (400 \<le> n \<and> n < 500)"
    with e show "handle_response r = Inl (ServerError code message)" by auto }
qed (simp_all add: get_default_def)

text \<open>The scenarios of the specification, and the defaults on an empty object.\<close>

theorem handle_response_classification_witness:
  \<open>handle_response \<lparr>status_code = 401, text' = ''{"code":401,"message":"bad key"}'',
       json = Some (JDict [(''code'', JInt 401), (''message'', JStr ''bad key'')])\<rparr> =
     Inl (AuthenticationError (JInt 401) (JStr ''bad key'')) \<and>
   handle_response \<lparr>status_code = 404, text' = ''{"code":404,"message":"not found"}'',
       json = Some (JDict [(''code'', JInt 404), (''message'', JStr ''not found'')])\<rparr> =
     Inl (ClientRequestError (JInt 404) (JStr ''not found'')) \<and>
   handle_response \<lparr>status_code = 500, text' = ''{"code":500,"message":"boom"}'',
       json = Some (JDict [(''code'', JInt 500), (''message'', JStr ''boom'')])\<rparr> =
     Inl (ServerError (JInt 500) (JStr ''boom'')) \<and>
   handle_response \<lparr>status_code = 500, text' = ''{}'', json = Some (JDict [])\<rparr> =
     Inl (ServerError (JInt 500) (JStr ''An unknown error occurred.'')) \<and>
   handle_response \<lparr>status_code = 502, text' = ''upstream down'', json = None\<rparr> =
     Inl (APIClientError (JInt 502) (JStr ''upstream down''))\<close>
proof -
  have a: \<open>handle_response \<lparr>status_code = 401, text' = ''{"code":401,"message":"bad key"}'',
       json = Some (JDict [(''code'', JInt 401), (''message'', JStr ''bad key'')])\<rparr> =
     Inl (AuthenticationError (JInt 401) (JStr ''bad key''))\<close>
    using handle_response_classification
      [of \<open>\<lparr>status_code = 401, text' = ''{"code":401,"message":"bad key"}'',
            json = Some (JDict [(''code'', JInt 401), (''message'', JStr ''bad key'')])\<rparr>\<close>
          "[(''code'', JInt 401), (''message'', JStr ''bad key'')]" "JInt 401"
          "JStr ''bad key''" 401]
    by (simp add: get_default_def)
  have b: \<open>handle_response \<lparr>status_code = 404, text' = ''{"code":404,"message":"not found"}'',
       json = Some (JDict [(''code'', JInt 404), (''message'', JStr ''not found'')])\<rparr> =
     Inl (ClientRequestError (JInt 404) (JStr ''not found''))\<close>
    using handle_response_classification
      [of \<open>\<lparr>status_code = 404, text' = ''{"code":404,"message":"not found"}'',
            json = Some (JDict [(''code'', JInt 404), (''message'', JStr ''not found'')])\<rparr>\<close>
          "[(''code'', JInt 404), (''message'', JStr ''not found'')]" "JInt 404"
          "JStr ''not found''" 404]
    by (simp add: get_default_def)
  have c: \<open>handle_response \<lparr>status_code = 500, text' = ''{"code":500,"message":"boom"}'',
       json = Some (JDict [(''code'', JInt 500), (''message'', JStr ''boom'')])\<rparr> =
     Inl (ServerError (JInt 500) (JStr ''boom''))\<close>
    using handle_response_classification
      [of \<open>\<lparr>status_code = 500, text' = ''{"code":500,"message":"boom"}'',
            json = Some (JDict [(''code'', JInt 500), (''message'', JStr ''boom'')])\<rparr>\<close>
          "[(''code'', JInt 500), (''message'', JStr ''boom'')]" "JInt 500"
          "JStr ''boom''" 500]
    by (simp add: get_default_def)
  have d: "handle_response \<lparr>status_code = 500, text' = ''{}'', json = Some (JDict [])\<rparr> =
     Inl (ServerError (JInt 500) (JStr ''An unknown error occurred.''))"
    using handle_response_classification
      [of "\<lparr>status_code = 500, text' = ''{}'', json = Some (JDict [])\<rparr>"
          "[]" "JInt 500" "JStr ''An unknown error occurred.''" 500]
    by (simp add: get_default_def)
  have e: "handle_response \<lparr>status_code = 502, text' = ''upstream down'', json = None\<rparr> =
     Inl (APIClientError (JInt 502) (JStr ''upstream down''))"
    using handle_response_classification
      [of "\<lparr>status_code = 502, text' = ''upstream down'', json = None\<rparr>"]
    by simp
  from a b c d e show ?thesis by (intro conjI)
qed

subsection \<open>C5: a successful status with a body that is no JSON\<close>

text \<open>
  On a status below 400 the decode error of \<^verbatim>\<open>response.json()\<close> is raised inside the
  outer \<^verbatim>\<open>try\<close>, whose only handler is for \<^verbatim>\<open>HTTPError\<close>: it leaves \<open>handle_response\<close>
  as it is, not as an \<open>APIClientError\<close>.
\<close>

lemma handle_response_success_not_json:
  "200 \<le> status_code r \<Longrightarrow> status_code r < 300 \<Longrightarrow> json r = None \<Longrightarrow>
   handle_response r = Inl JSONDecodeError"
  by (simp add: handle_response_def raise_for_status_def)

text \<open>
  C5 says that a status from 200 to 299 with a body that is no JSON yields the
  generic failure with the status and the raw text. On status 200 with an HTML
  body the decode error comes out instead.
\<close>

theorem handle_response_success_decode_error:
  "handle_response \<lparr>status_code = 200, text' = ''<html>OK</html>'', json = None\<rparr> =
     Inl JSONDecodeError"
  by (simp add: handle_response_def raise_for_status_def)

subsection \<open>C6: when the failure is a ServerError\<close>

text \<open>
  C6, as stated: \<open>ServerError\<close> is raised exactly when the code of the envelope is
  500 or more. It is the \<^verbatim>\<open>else\<close> branch of the classification, which also takes
  every code below 400: an envelope with code 302 raises \<open>ServerError\<close>.
\<close>

theorem handle_response_server_below_400:
  \<open>handle_response \<lparr>status_code = 503, text' = ''{"code":302,"message":"moved"}'',
       json = Some (JDict [(''code'', JInt 302), (''message'', JStr ''moved'')])\<rparr> =
     Inl (ServerError (JInt 302) (JStr ''moved''))\<close>
  by (simp add: handle_response_def raise_for_status_def get_default_def py_eq_def py_ge_def)

text \<open>
  C6, amended: for every response with a status from 400 to 599 whose body decodes
  to an object with an integer \<^verbatim>\<open>code\<close> (500 when absent), \<open>ServerError\<close> is raised
  exactly when the code is 500 or more, or below 400.
\<close>

theorem handle_response_server_iff:
  assumes "400 \<le> status_code r" and "status_code r < 600"
    and "json r = Some (JDict error_data)"
    and "as_int (get_default error_data ''code'' (JInt 500)) = Some n"
  shows "(\<exists>code message. handle_response r = Inl (ServerError code message)) =
           (500 \<le> n \<or> n < 400) \<and>
         (handle_response r =
            Inl (ServerError (get_default error_data ''code'' (JInt 500))
                   (get_default error_data ''message'' (JStr ''An unknown error occurred.'')))) =
           (500 \<le> n \<or> n < 400)"
  using handle_response_envelope [OF assms] by auto

text \<open>Code 302 is a \<open>ServerError\<close>, code 404 is not.\<close>

theorem handle_response_server_iff_witness:
  \<open>(\<exists>code message.
      handle_response \<lparr>status_code = 503, text' = ''{"code":302,"message":"moved"}'',
        json = Some (JDict [(''code'', JInt 302), (''message'', JStr ''moved'')])\<rparr> =
      Inl (ServerError code message)) \<and>
   (\<nexists>code message.
      handle_response \<lparr>status_code = 404, text' = ''{"code":404,"message":"not found"}'',
        json = Some (JDict [(''code'', JInt 404), (''message'', JStr ''not found'')])\<rparr> =
      Inl (ServerError code message))\<close>
proof -
  have a: \<open>\<exists>code message.
      handle_response \<lparr>status_code = 503, text' = ''{"code":302,"message":"moved"}'',
        json = Some (JDict [(''code'', JInt 302), (''message'', JStr ''moved'')])\<rparr> =
      Inl (ServerError code message)\<close>
    using handle_response_server_iff
      [of \<open>\<lparr>status_code = 503, text' = ''{"code":302,"message":"moved"}'',
            json = Some (JDict [(''code'', JInt 302), (''message'', JStr ''moved'')])\<rparr>\<close>
          "[(''code'', JInt 302), (''message'', JStr ''moved'')]" 302]
    by (simp add: get_default_def)
  have b: \<open>\<nexists>code message.
      handle_response \<lparr>status_code = 404, text' = ''{"code":404,"message":"not found"}'',
        json = Some (JDict [(''code'', JInt 404), (''message'', JStr ''not found'')])\<rparr> =
      Inl (ServerError code message)\<close>
    using handle_response_server_iff
      [of \<open>\<lparr>status_code = 404, text' = ''{"code":404,"message":"not found"}'',
            json = Some (JDict [(''code'', JInt 404), (''message'', JStr ''not found'')])\<rparr>\<close>
          "[(''code'', JInt 404), (''message'', JStr ''not found'')]" 404]
    by (simp add: get_default_def)
  from a b show ?thesis by (intro conjI)
qed

end
